theory Spec2Isabelle
  imports Main "HOL-Library.Char_ord" "HOL-Library.List_Lexorder"
begin

section \<open>Errors and JSON values\<close>

text \<open>
  A thrown JavaScript value is either a plain \<open>Error\<close> (it has a message and no
  \<open>status\<close> property) or an error object of the document store, which carries a numeric
  \<open>status\<close> (404 for a missing document, 409 for a revision conflict) and a name.
  A function that can throw returns \<open>error + 'a\<close>, with \<open>Inl\<close> for the thrown value.
\<close>

datatype error = JsError string | PouchError nat string

fun status :: "error \<Rightarrow> nat option" where
  "status (JsError m) = None"
| "status (PouchError s n) = Some s"

text \<open>
  The open-ended \<open>Record<string, unknown>\<close> payloads (\<open>system\<close>, \<open>flags\<close>) are JSON
  values; numbers are integers here (levels, counts and sort keys are).
\<close>

datatype json = JNull | JBool bool | JNum int | JStr string | JArr "json list"
  | JObj "(string \<times> json) list"

fun truthy :: "json \<Rightarrow> bool" where
  "truthy JNull = False"
| "truthy (JBool b) = b"
| "truthy (JNum n) = (n \<noteq> 0)"
| "truthy (JStr s) = (s \<noteq> [])"
| "truthy (JArr xs) = True"
| "truthy (JObj kv) = True"

fun json_field :: "string \<Rightarrow> json \<Rightarrow> json option" where
  "json_field k (JObj kv) = map_of kv k"
| "json_field k v = None"

fun json_path :: "string list \<Rightarrow> json \<Rightarrow> json option" where
  "json_path [] v = Some v"
| "json_path (k # ks) v = (case json_field k v of None \<Rightarrow> None | Some w \<Rightarrow> json_path ks w)"

section \<open>Document types (lib/db/types.ts)\<close>

datatype doc_type = Ancestry | Background | Class | Feat | Spell | Equipment | Action
  | Bestiary | Condition | Deity

text \<open>
  A revision token \<open>_rev\<close> is modelled by its generation number (the \<open>N\<close> of the store's
  \<open>N-hash\<close> strings); an absent \<open>_rev\<close> is \<open>None\<close>.
\<close>

record GameDataDoc =
  gd_id :: string
  gd_rev :: "nat option"
  gd_type :: doc_type
  gd_system :: json
  gd_name :: string
  gd_img :: "string option"
  gd_folder :: "string option"
  gd_sort :: "int option"
  gd_flags :: "json option"

record Abilities =
  ab_str :: int
  ab_dex :: int
  ab_con :: int
  ab_int :: int
  ab_wis :: int
  ab_cha :: int

record HitPoints =
  hp_current :: int
  hp_max :: int
  hp_temp :: int

record Skill =
  sk_rank :: int
  sk_modifier :: int

record FeatRef =
  fr_id :: string
  fr_level :: int
  fr_featType :: string

record SpellSlot =
  slot_max :: int
  slot_current :: int

record KnownSpell =
  ks_id :: string
  ks_level :: int

record Spells =
  sp_slots :: "(int \<times> SpellSlot) list"
  sp_known :: "KnownSpell list"

record EquipmentItem =
  eq_id :: string
  eq_quantity :: int
  eq_equipped :: bool
  eq_invested :: "bool option"

record Wealth =
  w_cp :: int
  w_sp :: int
  w_gp :: int
  w_pp :: int

text \<open>
  \<open>CharacterInput\<close> is the argument type of \<open>createCharacter\<close>,
  \<open>Omit<CharacterDoc, "_id" | "_rev" | "createdAt" | "updatedAt" | "version">\<close>;
  \<open>CharacterDoc\<close> extends it by the five omitted fields. Timestamps are the ISO-8601
  strings that \<open>new Date().toISOString()\<close> returns.
\<close>

record CharacterInput =
  ch_name :: string
  ch_level :: int
  ch_experience :: int
  ch_ancestryId :: string
  ch_backgroundId :: string
  ch_classId :: string
  ch_abilities :: Abilities
  ch_hp :: HitPoints
  ch_skills :: "(string \<times> Skill) list"
  ch_feats :: "FeatRef list"
  ch_spells :: "Spells option"
  ch_equipment :: "EquipmentItem list"
  ch_wealth :: Wealth
  ch_notes :: string

record CharacterDoc = CharacterInput +
  ch_id :: string
  ch_rev :: "nat option"
  ch_createdAt :: string
  ch_updatedAt :: string
  ch_version :: int

datatype theme = Dark | Light | Auto
datatype colorScheme = Default | Blue | Purple | Green
datatype fontSize = Sm | Md | Lg
datatype aiMode = Local | Api
datatype apiProvider = Openai | Anthropic | Groq | Gemini

record AiSettings =
  ai_enabled :: bool
  ai_mode :: aiMode
  ai_apiProvider :: "apiProvider option"
  ai_apiKey :: "string option"
  ai_model :: "string option"

record PreferencesDoc =
  pf_id :: string
  pf_rev :: "nat option"
  pf_theme :: theme
  pf_colorScheme :: colorScheme
  pf_fontSize :: fontSize
  pf_animations :: bool
  pf_sounds :: bool
  pf_autoSave :: bool
  pf_cloudSync :: bool
  pf_supabaseUrl :: "string option"
  pf_supabaseKey :: "string option"
  pf_lastSyncAt :: "string option"
  pf_aiSettings :: AiSettings
  pf_onboardingComplete :: bool
  pf_version :: int

record GameDataQuery =
  q_limit :: "nat option"
  q_skip :: "nat option"
  q_type :: "doc_type option"
  q_level :: "int option"
  q_traits :: "string list option"
  q_search :: "string option"

record CharacterQuery =
  cq_limit :: "nat option"
  cq_skip :: "nat option"
  cq_level :: "int option"
  cq_classId :: "string option"
  cq_minLevel :: "int option"
  cq_maxLevel :: "int option"

section \<open>The document store the code runs on\<close>

text \<open>
  The repository calls a document database library; its operations are modelled by what
  its interface promises. A database is the list of its documents in ascending order of
  \<open>_id\<close> (the order of the primary index, in which \<open>find\<close> and \<open>allDocs\<close> enumerate),
  with at most one document per \<open>_id\<close>.
  \<^item> \<open>get\<close> rejects with status 404 when no document has the identifier.
  \<^item> \<open>put\<close> of a new identifier needs a document without \<open>_rev\<close> and stores it at
    generation 1; \<open>put\<close> over a stored document needs the stored revision and stores the
    next generation; anything else rejects with status 409.
  \<^item> \<open>remove\<close> needs the stored revision and deletes the document. (The store keeps
    the history of a deleted document, so that a later \<open>put\<close> of its identifier
    continues the generation count; here the document leaves no trace and the count
    starts again. No statement below depends on the generation after a deletion.)
  \<^item> \<open>bulkDocs\<close> with \<open>new_edits: false\<close> takes the revision of every document from
    the document itself. A batch in which a document has no \<open>_rev\<close> is rejected as a
    whole with status 400 (invalid revision format) and nothing is stored. A batch in
    which every document has one is stored as given, revision by revision (a stored
    document of a higher generation stays), and the answer lists the failures only.
  \<^item> \<open>find\<close> returns the documents that match the selector, in index order, after
    \<open>skip\<close> and up to \<open>limit\<close>. (The order here is ascending \<open>_id\<close>, which is the
    order of the store whenever the selector fixes every field of the index it is
    answered from, as a selector with both \<open>type\<close> and \<open>system.level.value\<close> does;
    for other selectors the store may enumerate in the order of another index and leave
    out documents that lack an indexed field. The statements below that do not fix both
    fields are about the length of the result only.)
  Each function below takes the projections (\<open>_id\<close>, \<open>_rev\<close>) of the document type.
\<close>

fun store_upsert :: "('d \<Rightarrow> string) \<Rightarrow> 'd \<Rightarrow> 'd list \<Rightarrow> 'd list" where
  "store_upsert k d [] = [d]"
| "store_upsert k d (x # xs) =
     (if k d < k x then d # x # xs
      else if k d = k x then d # xs
      else x # store_upsert k d xs)"

definition db_get :: "('d \<Rightarrow> string) \<Rightarrow> 'd list \<Rightarrow> string \<Rightarrow> error + 'd" where
  "db_get k docs i =
     (case find (\<lambda>d. k d = i) docs of
        None \<Rightarrow> Inl (PouchError 404 ''not_found'')
      | Some d \<Rightarrow> Inr d)"

definition db_put ::
  "('d \<Rightarrow> string) \<Rightarrow> ('d \<Rightarrow> nat option) \<Rightarrow> (nat option \<Rightarrow> 'd \<Rightarrow> 'd) \<Rightarrow> 'd list \<Rightarrow> 'd
     \<Rightarrow> error + (nat \<times> 'd list)" where
  "db_put k rv set_rv docs d =
     (case find (\<lambda>x. k x = k d) docs of
        None \<Rightarrow>
          (case rv d of
             None \<Rightarrow> Inr (1, store_upsert k (set_rv (Some 1) d) docs)
           | Some r \<Rightarrow> Inl (PouchError 409 ''conflict''))
      | Some x \<Rightarrow>
          (case (rv x, rv d) of
             (Some r, Some r') \<Rightarrow>
               if r = r' then Inr (Suc r, store_upsert k (set_rv (Some (Suc r)) d) docs)
               else Inl (PouchError 409 ''conflict'')
           | _ \<Rightarrow> Inl (PouchError 409 ''conflict'')))"

definition db_remove ::
  "('d \<Rightarrow> string) \<Rightarrow> ('d \<Rightarrow> nat option) \<Rightarrow> 'd list \<Rightarrow> 'd \<Rightarrow> error + 'd list" where
  "db_remove k rv docs d =
     (case find (\<lambda>x. k x = k d) docs of
        None \<Rightarrow> Inl (PouchError 404 ''not_found'')
      | Some x \<Rightarrow>
          (case (rv x, rv d) of
             (Some r, Some r') \<Rightarrow>
               if r = r' then Inr (filter (\<lambda>y. k y \<noteq> k d) docs)
               else Inl (PouchError 409 ''conflict'')
           | _ \<Rightarrow> Inl (PouchError 409 ''conflict'')))"

definition store_revision ::
  "('d \<Rightarrow> string) \<Rightarrow> ('d \<Rightarrow> nat option) \<Rightarrow> 'd \<Rightarrow> 'd list \<Rightarrow> 'd list" where
  "store_revision k rv d docs =
     (case find (\<lambda>x. k x = k d) docs of
        None \<Rightarrow> store_upsert k d docs
      | Some x \<Rightarrow>
          (case (rv x, rv d) of
             (Some r, Some r') \<Rightarrow> if r' < r then docs else store_upsert k d docs
           | _ \<Rightarrow> store_upsert k d docs))"

definition db_bulkDocs ::
  "('d \<Rightarrow> string) \<Rightarrow> ('d \<Rightarrow> nat option) \<Rightarrow> 'd list \<Rightarrow> 'd list
     \<Rightarrow> error + (bool list \<times> 'd list)" where
  "db_bulkDocs k rv docs ds =
     (if list_ex (\<lambda>d. rv d = None) ds then Inl (PouchError 400 ''bad_request'')
      else Inr ([], fold (store_revision k rv) ds docs))"

definition db_find :: "('d \<Rightarrow> bool) \<Rightarrow> nat \<Rightarrow> nat \<Rightarrow> 'd list \<Rightarrow> 'd list" where
  "db_find sel lim skp docs = take lim (drop skp (filter sel docs))"

text \<open>
  What the outside world can do wrong is a parameter \<open>env\<close> of every operation: for each
  call of the library that can reject, the error it rejects with (\<open>None\<close>: it succeeds).
  \<open>regexp_i\<close> is the regular-expression engine: \<open>new RegExp(src, "i")\<close> either throws
  (\<open>None\<close>) or gives the test on strings.
\<close>

datatype store_op = OpGet | OpPut | OpRemove | OpFind | OpAllDocs | OpBulkDocs

record env =
  createIndex_err :: "string \<Rightarrow> string list \<Rightarrow> error option"
  close_err :: "string \<Rightarrow> error option"
  destroy_err :: "string \<Rightarrow> error option"
  sync_err :: "string \<Rightarrow> error option"
  store_err :: "string \<Rightarrow> store_op \<Rightarrow> error option"
  regexp_i :: "string \<Rightarrow> (string \<Rightarrow> bool) option"

section \<open>Database handles and replication (lib/db/index.ts)\<close>

text \<open>
  The module keeps three database handles and one replication handler in module
  variables. A handle is the name of the database it opens; the documents persist under
  that name whether or not a handle is open. Next to the module variables, the state
  holds what the library holds: the documents of the three databases, the replications
  that were started and not yet cancelled, and the calls made to the library that open,
  index, close or destroy a database, start or cancel a replication, or hand a batch of
  game data to \<open>bulkDocs\<close>, in order.
\<close>

record sync_handler =
  sh_id :: nat
  sh_remote :: string

datatype effect = Opened string | IndexCreated string "string list" | Closed string
  | Destroyed string | SyncStarted sync_handler | SyncCancelled sync_handler
  | BulkDocsCalled string "GameDataDoc list"

record app =
  gamedataDB :: "string option"
  charactersDB :: "string option"
  preferencesDB :: "string option"
  charactersSyncHandler :: "sync_handler option"
  gamedata_docs :: "GameDataDoc list"
  characters_docs :: "CharacterDoc list"
  preferences_docs :: "PreferencesDoc list"
  live_syncs :: "sync_handler list"
  syncs_made :: nat
  effects :: "effect list"

definition module_loaded :: app where
  "module_loaded =
     \<lparr>gamedataDB = None, charactersDB = None, preferencesDB = None,
      charactersSyncHandler = None, gamedata_docs = [], characters_docs = [],
      preferences_docs = [], live_syncs = [], syncs_made = 0, effects = []\<rparr>"

definition log_effect :: "effect \<Rightarrow> app \<Rightarrow> app" where
  "log_effect e st = st\<lparr>effects := effects st @ [e]\<rparr>"

fun createIndex_all :: "env \<Rightarrow> (string \<times> string list) list \<Rightarrow> app \<Rightarrow> (error + unit) \<times> app" where
  "createIndex_all env [] st = (Inr (), st)"
| "createIndex_all env ((db, fs) # rest) st =
     (case createIndex_err env db fs of
        Some e \<Rightarrow> (Inl e, st)
      | None \<Rightarrow> createIndex_all env rest (log_effect (IndexCreated db fs) st))"

definition createIndexes :: "env \<Rightarrow> app \<Rightarrow> (error + unit) \<times> app" where
  "createIndexes env st =
     (case (gamedataDB st, charactersDB st) of
        (Some g, Some c) \<Rightarrow>
          createIndex_all env
            [(g, [''type'']), (g, [''type'', ''system.level.value'']), (g, [''name'']),
             (c, [''level'']), (c, [''classId'']), (c, [''updatedAt''])] st
      | _ \<Rightarrow> (Inr (), st))"

text \<open>
  \<open>initDatabases\<close> assigns the three handles and then creates the indexes; it returns
  the handles it assigned, which are in the state here, so the model returns \<open>()\<close>.
  Opening a database by name does not fail by itself; what can fail is the first call
  on it, here \<open>createIndex\<close>.
\<close>

definition initDatabases :: "env \<Rightarrow> app \<Rightarrow> (error + unit) \<times> app" where
  "initDatabases env st =
     createIndexes env
       (log_effect (Opened ''anvil2e_preferences'')
         (log_effect (Opened ''anvil2e_characters'')
           (log_effect (Opened ''anvil2e_gamedata'') st
              \<lparr>gamedataDB := Some ''anvil2e_gamedata''\<rparr>)
            \<lparr>charactersDB := Some ''anvil2e_characters''\<rparr>)
          \<lparr>preferencesDB := Some ''anvil2e_preferences''\<rparr>)"

definition getGameDataDB :: "app \<Rightarrow> error + string" where
  "getGameDataDB st =
     (case gamedataDB st of
        None \<Rightarrow> Inl (JsError ''Gamedata database not initialized. Call initDatabases() first.'')
      | Some db \<Rightarrow> Inr db)"

definition getCharactersDB :: "app \<Rightarrow> error + string" where
  "getCharactersDB st =
     (case charactersDB st of
        None \<Rightarrow> Inl (JsError ''Characters database not initialized. Call initDatabases() first.'')
      | Some db \<Rightarrow> Inr db)"

definition getPreferencesDB :: "app \<Rightarrow> error + string" where
  "getPreferencesDB st =
     (case preferencesDB st of
        None \<Rightarrow> Inl (JsError ''Preferences database not initialized. Call initDatabases() first.'')
      | Some db \<Rightarrow> Inr db)"

text \<open>
  The error an accessor throws while its handle is unset.
\<close>

definition uninitialized :: "string \<Rightarrow> error" where
  "uninitialized which =
     JsError (which @ '' database not initialized. Call initDatabases() first.'')"

definition isDatabasesInitialized :: "app \<Rightarrow> bool" where
  "isDatabasesInitialized st =
     (gamedataDB st \<noteq> None \<and> charactersDB st \<noteq> None \<and> preferencesDB st \<noteq> None)"

fun close_all :: "env \<Rightarrow> string option list \<Rightarrow> app \<Rightarrow> (error + unit) \<times> app" where
  "close_all env [] st = (Inr (), st)"
| "close_all env (None # hs) st = close_all env hs st"
| "close_all env (Some n # hs) st =
     (case close_err env n of
        Some e \<Rightarrow> (Inl e, st)
      | None \<Rightarrow> close_all env hs (log_effect (Closed n) st))"

text \<open>
  The names of the handles that are set, in the order \<open>closeDatabases\<close> closes them.
\<close>

fun open_handles :: "string option list \<Rightarrow> string list" where
  "open_handles [] = []"
| "open_handles (None # hs) = open_handles hs"
| "open_handles (Some n # hs) = n # open_handles hs"

definition closeDatabases :: "env \<Rightarrow> app \<Rightarrow> (error + unit) \<times> app" where
  "closeDatabases env st =
     (case close_all env [gamedataDB st, charactersDB st, preferencesDB st] st of
        (Inl e, st1) \<Rightarrow> (Inl e, st1)
      | (Inr u, st1) \<Rightarrow>
          (Inr (), st1\<lparr>gamedataDB := None, charactersDB := None, preferencesDB := None\<rparr>))"

definition erase_db :: "string \<Rightarrow> app \<Rightarrow> app" where
  "erase_db n st =
     (if n = ''anvil2e_gamedata'' then st\<lparr>gamedata_docs := []\<rparr>
      else if n = ''anvil2e_characters'' then st\<lparr>characters_docs := []\<rparr>
      else if n = ''anvil2e_preferences'' then st\<lparr>preferences_docs := []\<rparr>
      else st)"

fun destroy_all :: "env \<Rightarrow> string list \<Rightarrow> app \<Rightarrow> (error + unit) \<times> app" where
  "destroy_all env [] st = (Inr (), st)"
| "destroy_all env (n # ns) st =
     (case destroy_err env n of
        Some e \<Rightarrow> (Inl e, st)
      | None \<Rightarrow> destroy_all env ns (log_effect (Destroyed n) (erase_db n st)))"

definition destroyDatabases :: "env \<Rightarrow> app \<Rightarrow> (error + unit) \<times> app" where
  "destroyDatabases env st =
     (case closeDatabases env st of
        (Inl e, st1) \<Rightarrow> (Inl e, st1)
      | (Inr u, st1) \<Rightarrow>
          destroy_all env [''anvil2e_gamedata'', ''anvil2e_characters'', ''anvil2e_preferences''] st1)"

definition cancel :: "sync_handler \<Rightarrow> app \<Rightarrow> app" where
  "cancel h st = log_effect (SyncCancelled h) (st\<lparr>live_syncs := removeAll h (live_syncs st)\<rparr>)"

definition startCharactersSync :: "env \<Rightarrow> string \<Rightarrow> app \<Rightarrow> (error + sync_handler) \<times> app" where
  "startCharactersSync env remoteUrl st =
     (case charactersDB st of
        None \<Rightarrow> (Inl (JsError ''Characters database not initialized''), st)
      | Some db \<Rightarrow>
          (let st1 = (case charactersSyncHandler st of Some h \<Rightarrow> cancel h st | None \<Rightarrow> st)
           in case sync_err env remoteUrl of
                Some e \<Rightarrow> (Inl e, st1)
              | None \<Rightarrow>
                  (let h = \<lparr>sh_id = syncs_made st1, sh_remote = remoteUrl\<rparr>
                   in (Inr h,
                       log_effect (SyncStarted h)
                         (st1\<lparr>charactersSyncHandler := Some h,
                              live_syncs := h # live_syncs st1,
                              syncs_made := Suc (syncs_made st1)\<rparr>)))))"

definition stopCharactersSync :: "app \<Rightarrow> app" where
  "stopCharactersSync st =
     (case charactersSyncHandler st of
        Some h \<Rightarrow> (cancel h st)\<lparr>charactersSyncHandler := None\<rparr>
      | None \<Rightarrow> st)"

definition isSyncActive :: "app \<Rightarrow> bool" where
  "isSyncActive st = (charactersSyncHandler st \<noteq> None)"

text \<open>
  A run of the module: any sequence of its exported operations, from module load.
\<close>

datatype module_op = InitDatabases | CloseDatabases | DestroyDatabases
  | StartCharactersSync string | StopCharactersSync

fun run_op :: "env \<Rightarrow> module_op \<Rightarrow> app \<Rightarrow> app" where
  "run_op env InitDatabases st = snd (initDatabases env st)"
| "run_op env CloseDatabases st = snd (closeDatabases env st)"
| "run_op env DestroyDatabases st = snd (destroyDatabases env st)"
| "run_op env (StartCharactersSync url) st = snd (startCharactersSync env url st)"
| "run_op env StopCharactersSync st = stopCharactersSync st"

definition run_ops :: "env \<Rightarrow> module_op list \<Rightarrow> app \<Rightarrow> app" where
  "run_ops env ops st = fold (run_op env) ops st"

text \<open>
  The effects that start or cancel a replication, and the two shapes the replication
  state can have: at most the handler of the module variable is live (\<open>sync_inv\<close>), and
  the handler of the module variable is live (\<open>sync_exact\<close>).
\<close>

fun sync_effect :: "effect \<Rightarrow> bool" where
  "sync_effect (SyncStarted h) = True"
| "sync_effect (SyncCancelled h) = True"
| "sync_effect e = False"

definition sync_inv :: "app \<Rightarrow> bool" where
  "sync_inv st =
     (case charactersSyncHandler st of
        None \<Rightarrow> live_syncs st = []
      | Some h \<Rightarrow> live_syncs st = [] \<or> live_syncs st = [h])"

definition sync_exact :: "app \<Rightarrow> bool" where
  "sync_exact st =
     (case charactersSyncHandler st of
        None \<Rightarrow> live_syncs st = []
      | Some h \<Rightarrow> live_syncs st = [h])"

section \<open>The bulk importer (lib/data/loader.ts)\<close>

datatype PackName = Pack_ancestries | Pack_backgrounds | Pack_classes | Pack_classfeatures
  | Pack_feats | Pack_spells | Pack_equipment | Pack_actions | Pack_bestiary
  | Pack_bestiary_ability_glossary_srd | Pack_conditions | Pack_deities | Pack_domains

fun packName_str :: "PackName \<Rightarrow> string" where
  "packName_str Pack_ancestries = ''ancestries''"
| "packName_str Pack_backgrounds = ''backgrounds''"
| "packName_str Pack_classes = ''classes''"
| "packName_str Pack_classfeatures = ''classfeatures''"
| "packName_str Pack_feats = ''feats''"
| "packName_str Pack_spells = ''spells''"
| "packName_str Pack_equipment = ''equipment''"
| "packName_str Pack_actions = ''actions''"
| "packName_str Pack_bestiary = ''bestiary''"
| "packName_str Pack_bestiary_ability_glossary_srd = ''bestiary-ability-glossary-srd''"
| "packName_str Pack_conditions = ''conditions''"
| "packName_str Pack_deities = ''deities''"
| "packName_str Pack_domains = ''domains''"

definition CORE_PACKS :: "PackName list" where
  "CORE_PACKS = [Pack_ancestries, Pack_backgrounds, Pack_classes, Pack_classfeatures,
     Pack_feats, Pack_spells, Pack_equipment, Pack_actions]"

definition OPTIONAL_PACKS :: "PackName list" where
  "OPTIONAL_PACKS = [Pack_bestiary, Pack_bestiary_ability_glossary_srd, Pack_conditions,
     Pack_deities, Pack_domains]"

definition typeMap :: "(string \<times> doc_type) list" where
  "typeMap =
     [(''ancestries'', Ancestry), (''backgrounds'', Background), (''classes'', Class),
      (''feats'', Feat), (''spells'', Spell), (''equipment'', Equipment),
      (''actions'', Action), (''bestiary'', Bestiary), (''conditions'', Condition),
      (''deities'', Deity)]"

definition getTypeFromPackName :: "PackName \<Rightarrow> doc_type" where
  "getTypeFromPackName packName =
     (case map_of typeMap (packName_str packName) of Some t \<Rightarrow> t | None \<Rightarrow> Feat)"

text \<open>
  A source record, as the pack files hold it: every field may be missing.
\<close>

record source_doc =
  src_id :: "string option"
  src_name :: "string option"
  src_system :: "json option"
  src_img :: "string option"
  src_folder :: "string option"
  src_sort :: "int option"
  src_flags :: "json option"

text \<open>
  \<open>toLowerCase\<close> on the ASCII letters (names are taken to be ASCII). The pattern of
  \<open>replace(/\\s+/g, "_")\<close> is a backslash followed by one or more \<open>s\<close>: every such run
  becomes one underscore, and nothing else changes.
\<close>

definition toLowerCase_char :: "char \<Rightarrow> char" where
  "toLowerCase_char c =
     (case map_of (zip ''ABCDEFGHIJKLMNOPQRSTUVWXYZ'' ''abcdefghijklmnopqrstuvwxyz'') c of
        Some l \<Rightarrow> l
      | None \<Rightarrow> c)"

definition toLowerCase :: "string \<Rightarrow> string" where
  "toLowerCase s = map toLowerCase_char s"

function replace_backslash_s :: "string \<Rightarrow> string" where
  "replace_backslash_s [] = []"
| "replace_backslash_s (c # cs) =
     (if c = CHR 0x5C \<and> (case cs of [] \<Rightarrow> False | x # xs \<Rightarrow> x = CHR ''s'')
      then CHR ''_'' # replace_backslash_s (dropWhile (\<lambda>x. x = CHR ''s'') cs)
      else c # replace_backslash_s cs)"
  by pat_completeness auto
termination
  by (relation "measure length") (auto simp: length_dropWhile_le less_Suc_eq_le)

definition toGameDataDoc :: "PackName \<Rightarrow> source_doc \<Rightarrow> GameDataDoc" where
  "toGameDataDoc packName doc =
     \<lparr>gd_id =
        (case src_id doc of
           Some i \<Rightarrow>
             if i \<noteq> [] then i
             else packName_str packName @ ''_'' @
               (case src_name doc of
                  None \<Rightarrow> ''undefined''
                | Some n \<Rightarrow> replace_backslash_s (toLowerCase n))
         | None \<Rightarrow>
             packName_str packName @ ''_'' @
               (case src_name doc of
                  None \<Rightarrow> ''undefined''
                | Some n \<Rightarrow> replace_backslash_s (toLowerCase n))),
      gd_rev = None,
      gd_type = getTypeFromPackName packName,
      gd_system =
        (case src_system doc of
           Some v \<Rightarrow> if truthy v then v else JObj []
         | None \<Rightarrow> JObj []),
      gd_name =
        (case src_name doc of
           Some n \<Rightarrow> if n \<noteq> [] then n else ''Unnamed''
         | None \<Rightarrow> ''Unnamed''),
      gd_img = src_img doc,
      gd_folder = src_folder doc,
      gd_sort = src_sort doc,
      gd_flags = src_flags doc\<rparr>"

datatype load_status = Loading | Complete | LoadError

record LoadingProgress =
  lp_pack :: string
  lp_loaded :: nat
  lp_total :: nat
  lp_status :: load_status
  lp_error :: "string option"

fun error_message :: "error \<Rightarrow> string" where
  "error_message (JsError m) = m"
| "error_message (PouchError s n) = n"

text \<open>
  What \<open>fetch\<close> of the pack file and \<open>response.json()\<close> give: the request rejects, the
  response is not ok (with its status text), the body is not JSON, or the body is an
  array of source records or an object whose values (in the order \<open>Object.values\<close>
  enumerates them) are source records.
\<close>

datatype fetch_response = FetchRejected error | FetchNotOk string | FetchBadJson error
  | FetchArray "source_doc list" | FetchObject "(string \<times> source_doc) list"

definition load_failed ::
  "PackName \<Rightarrow> error \<Rightarrow> app \<Rightarrow> ((error + nat) \<times> LoadingProgress list) \<times> app" where
  "load_failed packName e st =
     ((Inl e,
       [\<lparr>lp_pack = packName_str packName, lp_loaded = 0, lp_total = 0, lp_status = Loading,
         lp_error = None\<rparr>,
        \<lparr>lp_pack = packName_str packName, lp_loaded = 0, lp_total = 0, lp_status = LoadError,
         lp_error = Some (error_message e)\<rparr>]), st)"

text \<open>
  \<open>gameDataDocs\<close> is the batch \<open>loadPack\<close> builds from the source records and hands to
  \<open>bulkDocs\<close>; the call is recorded among the effects. None of the documents has a
  \<open>_rev\<close>, so the store rejects every non-empty batch; the lines after the call (the
  count of the \<open>ok\<close> answers, the \<open>complete\<close> report) are modelled as written.
\<close>

definition gameDataDocs :: "PackName \<Rightarrow> source_doc list \<Rightarrow> GameDataDoc list" where
  "gameDataDocs packName docs = map (toGameDataDoc packName) docs"

definition import_docs ::
  "env \<Rightarrow> string \<Rightarrow> PackName \<Rightarrow> source_doc list \<Rightarrow> app
     \<Rightarrow> ((error + nat) \<times> LoadingProgress list) \<times> app" where
  "import_docs env db packName docs st =
     (if length docs = 0 then
        ((Inr 0,
          [\<lparr>lp_pack = packName_str packName, lp_loaded = 0, lp_total = 0,
            lp_status = Loading, lp_error = None\<rparr>]), st)
      else
        (let called = log_effect (BulkDocsCalled db (gameDataDocs packName docs)) st
         in case store_err env db OpBulkDocs of
              Some e \<Rightarrow> load_failed packName e called
            | None \<Rightarrow>
                (case db_bulkDocs gd_id gd_rev (gamedata_docs called)
                        (gameDataDocs packName docs) of
                   Inl e \<Rightarrow> load_failed packName e called
                 | Inr (result, stored) \<Rightarrow>
                     (let successCount = length (filter (\<lambda>ok. ok) result)
                      in ((Inr successCount,
                           [\<lparr>lp_pack = packName_str packName, lp_loaded = 0, lp_total = 0,
                             lp_status = Loading, lp_error = None\<rparr>,
                            \<lparr>lp_pack = packName_str packName, lp_loaded = successCount,
                             lp_total = length docs, lp_status = Complete,
                             lp_error = None\<rparr>]),
                          called\<lparr>gamedata_docs := stored\<rparr>)))))"

text \<open>
  \<open>loadPack\<close> returns the count (or the thrown error) with the progress reports it made,
  in order, and the state after it.
\<close>

definition loadPack ::
  "env \<Rightarrow> PackName \<Rightarrow> fetch_response \<Rightarrow> app
     \<Rightarrow> ((error + nat) \<times> LoadingProgress list) \<times> app" where
  "loadPack env packName response st =
     (case getGameDataDB st of
        Inl e \<Rightarrow> ((Inl e, []), st)
      | Inr db \<Rightarrow>
          (case response of
             FetchRejected e \<Rightarrow> load_failed packName e st
           | FetchNotOk statusText \<Rightarrow>
               load_failed packName
                 (JsError (''Failed to fetch '' @ packName_str packName @ '': '' @ statusText)) st
           | FetchBadJson e \<Rightarrow> load_failed packName e st
           | FetchArray data \<Rightarrow> import_docs env db packName data st
           | FetchObject data \<Rightarrow> import_docs env db packName (map snd data) st))"

section \<open>The query layer (lib/db/queries.ts)\<close>

text \<open>
  A call of the store through a handle: it rejects with the error the outside world
  injects for that database and operation, if any, and otherwise does what the store does.
\<close>

definition pouch_get :: "env \<Rightarrow> string \<Rightarrow> ('d \<Rightarrow> string) \<Rightarrow> 'd list \<Rightarrow> string \<Rightarrow> error + 'd" where
  "pouch_get env db k docs i =
     (case store_err env db OpGet of Some e \<Rightarrow> Inl e | None \<Rightarrow> db_get k docs i)"

definition pouch_put ::
  "env \<Rightarrow> string \<Rightarrow> ('d \<Rightarrow> string) \<Rightarrow> ('d \<Rightarrow> nat option) \<Rightarrow> (nat option \<Rightarrow> 'd \<Rightarrow> 'd)
     \<Rightarrow> 'd list \<Rightarrow> 'd \<Rightarrow> error + (nat \<times> 'd list)" where
  "pouch_put env db k rv set_rv docs d =
     (case store_err env db OpPut of Some e \<Rightarrow> Inl e | None \<Rightarrow> db_put k rv set_rv docs d)"

definition pouch_remove ::
  "env \<Rightarrow> string \<Rightarrow> ('d \<Rightarrow> string) \<Rightarrow> ('d \<Rightarrow> nat option) \<Rightarrow> 'd list \<Rightarrow> 'd \<Rightarrow> error + 'd list" where
  "pouch_remove env db k rv docs d =
     (case store_err env db OpRemove of Some e \<Rightarrow> Inl e | None \<Rightarrow> db_remove k rv docs d)"

definition pouch_find ::
  "env \<Rightarrow> string \<Rightarrow> ('d \<Rightarrow> bool) \<Rightarrow> nat \<Rightarrow> nat \<Rightarrow> 'd list \<Rightarrow> error + 'd list" where
  "pouch_find env db sel lim skp docs =
     (case store_err env db OpFind of Some e \<Rightarrow> Inl e | None \<Rightarrow> Inr (db_find sel lim skp docs))"

subsection \<open>Game data\<close>

definition getGameDataById :: "env \<Rightarrow> string \<Rightarrow> app \<Rightarrow> error + GameDataDoc option" where
  "getGameDataById env i st =
     (case getGameDataDB st of
        Inl e \<Rightarrow> Inl e
      | Inr db \<Rightarrow>
          (case pouch_get env db gd_id (gamedata_docs st) i of
             Inr doc \<Rightarrow> Inr (Some doc)
           | Inl e \<Rightarrow> if status e = Some 404 then Inr None else Inl e))"

text \<open>
  The selector \<open>queryGameData\<close> builds has up to four conditions, all of which a
  document must meet: \<open>type\<close> equal, \<open>system.level.value\<close> equal, \<open>system.traits.value\<close>
  \<open>$in\<close> a list (an array field matches when one of its elements is in the list) and
  \<open>name\<close> matching a regular expression.
\<close>

record gd_selector =
  sel_type :: "doc_type option"
  sel_level :: "int option"
  sel_traits :: "string list option"
  sel_name :: "(string \<Rightarrow> bool) option"

definition mango_in :: "string list \<Rightarrow> json option \<Rightarrow> bool" where
  "mango_in ts v =
     (case v of
        None \<Rightarrow> False
      | Some JNull \<Rightarrow> False
      | Some (JArr xs) \<Rightarrow> list_ex (\<lambda>t. JStr t \<in> set xs) ts
      | Some w \<Rightarrow> list_ex (\<lambda>t. w = JStr t) ts)"

definition gd_matches :: "gd_selector \<Rightarrow> GameDataDoc \<Rightarrow> bool" where
  "gd_matches sel d =
     ((case sel_type sel of None \<Rightarrow> True | Some t \<Rightarrow> gd_type d = t) \<and>
      (case sel_level sel of
         None \<Rightarrow> True
       | Some l \<Rightarrow> json_path [''level'', ''value''] (gd_system d) = Some (JNum l)) \<and>
      (case sel_traits sel of
         None \<Rightarrow> True
       | Some ts \<Rightarrow> mango_in ts (json_path [''traits'', ''value''] (gd_system d))) \<and>
      (case sel_name sel of None \<Rightarrow> True | Some t \<Rightarrow> t (gd_name d)))"

definition gd_selector_of :: "GameDataQuery \<Rightarrow> (string \<Rightarrow> bool) option \<Rightarrow> gd_selector" where
  "gd_selector_of query rx =
     \<lparr>sel_type = q_type query,
      sel_level = q_level query,
      sel_traits =
        (case q_traits query of
           Some ts \<Rightarrow> if length ts > 0 then Some ts else None
         | None \<Rightarrow> None),
      sel_name = rx\<rparr>"

text \<open>
  The name condition is there when \<open>query.search\<close> is a non-empty string; building its
  regular expression can throw.
\<close>

definition search_regexp :: "env \<Rightarrow> GameDataQuery \<Rightarrow> error + (string \<Rightarrow> bool) option" where
  "search_regexp env query =
     (case q_search query of
        None \<Rightarrow> Inr None
      | Some s \<Rightarrow>
          if s = [] then Inr None
          else (case regexp_i env s of
                  None \<Rightarrow> Inl (JsError ''Invalid regular expression'')
                | Some t \<Rightarrow> Inr (Some t)))"

definition queryGameData :: "env \<Rightarrow> GameDataQuery \<Rightarrow> app \<Rightarrow> error + GameDataDoc list" where
  "queryGameData env query st =
     (case getGameDataDB st of
        Inl e \<Rightarrow> Inl e
      | Inr db \<Rightarrow>
          (case search_regexp env query of
             Inl e \<Rightarrow> Inl e
           | Inr rx \<Rightarrow>
               pouch_find env db (gd_matches (gd_selector_of query rx))
                 (case q_limit query of None \<Rightarrow> 100 | Some n \<Rightarrow> if n = 0 then 100 else n)
                 (case q_skip query of None \<Rightarrow> 0 | Some n \<Rightarrow> n)
                 (gamedata_docs st)))"

subsection \<open>Characters\<close>

definition getCharacterById :: "env \<Rightarrow> string \<Rightarrow> app \<Rightarrow> error + CharacterDoc option" where
  "getCharacterById env i st =
     (case getCharactersDB st of
        Inl e \<Rightarrow> Inl e
      | Inr db \<Rightarrow>
          (case pouch_get env db ch_id (characters_docs st) i of
             Inr doc \<Rightarrow> Inr (Some doc)
           | Inl e \<Rightarrow> if status e = Some 404 then Inr None else Inl e))"

fun string_of_nat :: "nat \<Rightarrow> string" where
  "string_of_nat n =
     (if n < 10 then [''0123456789'' ! n]
      else string_of_nat (n div 10) @ [''0123456789'' ! (n mod 10)])"

declare string_of_nat.simps [simp del]

definition set_ch_rev :: "nat option \<Rightarrow> CharacterDoc \<Rightarrow> CharacterDoc" where
  "set_ch_rev r d = d\<lparr>ch_rev := r\<rparr>"

text \<open>
  \<open>createCharacter\<close> reads the clock twice and draws one random number: \<open>now\<close> is
  \<open>new Date().toISOString()\<close>, \<open>ms\<close> is \<open>Date.now()\<close> and \<open>rnd\<close> is
  \<open>Math.random().toString(36)\<close>, of which \<open>slice(2, 11)\<close> keeps up to nine characters
  after the first two.
\<close>

definition createCharacter ::
  "env \<Rightarrow> string \<Rightarrow> nat \<Rightarrow> string \<Rightarrow> CharacterInput \<Rightarrow> app \<Rightarrow> (error + CharacterDoc) \<times> app" where
  "createCharacter env now ms rnd character st =
     (case getCharactersDB st of
        Inl e \<Rightarrow> (Inl e, st)
      | Inr db \<Rightarrow>
          (let newCharacter =
                 CharacterInput.extend character
                   (CharacterDoc.fields
                      (''character_'' @ string_of_nat ms @ ''_'' @ take 9 (drop 2 rnd))
                      None now now 1)
           in case pouch_put env db ch_id ch_rev set_ch_rev (characters_docs st) newCharacter of
                Inl e \<Rightarrow> (Inl e, st)
              | Inr (new_rev, docs) \<Rightarrow>
                  (Inr (newCharacter\<lparr>ch_rev := Some new_rev\<rparr>), st\<lparr>characters_docs := docs\<rparr>)))"

definition updateCharacter ::
  "env \<Rightarrow> string \<Rightarrow> CharacterDoc \<Rightarrow> app \<Rightarrow> (error + CharacterDoc) \<times> app" where
  "updateCharacter env now character st =
     (case getCharactersDB st of
        Inl e \<Rightarrow> (Inl e, st)
      | Inr db \<Rightarrow>
          (let updatedCharacter = character\<lparr>ch_updatedAt := now\<rparr>
           in case pouch_put env db ch_id ch_rev set_ch_rev (characters_docs st)
                     updatedCharacter of
                Inl e \<Rightarrow> (Inl e, st)
              | Inr (new_rev, docs) \<Rightarrow>
                  (Inr (updatedCharacter\<lparr>ch_rev := Some new_rev\<rparr>),
                   st\<lparr>characters_docs := docs\<rparr>)))"

definition deleteCharacter :: "env \<Rightarrow> string \<Rightarrow> app \<Rightarrow> (error + unit) \<times> app" where
  "deleteCharacter env i st =
     (case getCharactersDB st of
        Inl e \<Rightarrow> (Inl e, st)
      | Inr db \<Rightarrow>
          (case pouch_get env db ch_id (characters_docs st) i of
             Inl e \<Rightarrow> (Inl e, st)
           | Inr doc \<Rightarrow>
               (case pouch_remove env db ch_id ch_rev (characters_docs st) doc of
                  Inl e \<Rightarrow> (Inl e, st)
                | Inr docs \<Rightarrow> (Inr (), st\<lparr>characters_docs := docs\<rparr>))))"

text \<open>
  The selector of \<open>queryCharacters\<close>: an exact level is replaced by the range when a
  minimum or a maximum is given.
\<close>

datatype level_cond = LevelEq int | LevelRange "int option" "int option"

record ch_selector =
  csel_level :: "level_cond option"
  csel_classId :: "string option"

definition ch_matches :: "ch_selector \<Rightarrow> CharacterDoc \<Rightarrow> bool" where
  "ch_matches sel d =
     ((case csel_level sel of
         None \<Rightarrow> True
       | Some (LevelEq l) \<Rightarrow> ch_level d = l
       | Some (LevelRange lo hi) \<Rightarrow>
           (case lo of None \<Rightarrow> True | Some m \<Rightarrow> m \<le> ch_level d) \<and>
           (case hi of None \<Rightarrow> True | Some m \<Rightarrow> ch_level d \<le> m)) \<and>
      (case csel_classId sel of None \<Rightarrow> True | Some c \<Rightarrow> ch_classId d = c))"

definition ch_selector_of :: "CharacterQuery \<Rightarrow> ch_selector" where
  "ch_selector_of query =
     \<lparr>csel_level =
        (if cq_minLevel query \<noteq> None \<or> cq_maxLevel query \<noteq> None
         then Some (LevelRange (cq_minLevel query) (cq_maxLevel query))
         else (case cq_level query of None \<Rightarrow> None | Some l \<Rightarrow> Some (LevelEq l))),
      csel_classId =
        (case cq_classId query of
           Some c \<Rightarrow> if c \<noteq> [] then Some c else None
         | None \<Rightarrow> None)\<rparr>"

definition queryCharacters :: "env \<Rightarrow> CharacterQuery \<Rightarrow> app \<Rightarrow> error + CharacterDoc list" where
  "queryCharacters env query st =
     (case getCharactersDB st of
        Inl e \<Rightarrow> Inl e
      | Inr db \<Rightarrow>
          pouch_find env db (ch_matches (ch_selector_of query))
            (case cq_limit query of None \<Rightarrow> 100 | Some n \<Rightarrow> if n = 0 then 100 else n)
            (case cq_skip query of None \<Rightarrow> 0 | Some n \<Rightarrow> n)
            (characters_docs st))"

subsection \<open>Preferences\<close>

definition defaultPrefs :: PreferencesDoc where
  "defaultPrefs =
     \<lparr>pf_id = ''user_preferences'', pf_rev = None, pf_theme = Dark,
      pf_colorScheme = Default, pf_fontSize = Md, pf_animations = True, pf_sounds = False,
      pf_autoSave = True, pf_cloudSync = False, pf_supabaseUrl = None,
      pf_supabaseKey = None, pf_lastSyncAt = None,
      pf_aiSettings =
        \<lparr>ai_enabled = False, ai_mode = Local, ai_apiProvider = None, ai_apiKey = None,
         ai_model = None\<rparr>,
      pf_onboardingComplete = False, pf_version = 1\<rparr>"

definition set_pf_rev :: "nat option \<Rightarrow> PreferencesDoc \<Rightarrow> PreferencesDoc" where
  "set_pf_rev r d = d\<lparr>pf_rev := r\<rparr>"

definition getPreferences :: "env \<Rightarrow> app \<Rightarrow> (error + PreferencesDoc) \<times> app" where
  "getPreferences env st =
     (case getPreferencesDB st of
        Inl e \<Rightarrow> (Inl e, st)
      | Inr db \<Rightarrow>
          (case pouch_get env db pf_id (preferences_docs st) ''user_preferences'' of
             Inr doc \<Rightarrow> (Inr doc, st)
           | Inl e \<Rightarrow>
               if status e = Some 404 then
                 (case pouch_put env db pf_id pf_rev set_pf_rev (preferences_docs st)
                         defaultPrefs of
                    Inl e' \<Rightarrow> (Inl e', st)
                  | Inr (new_rev, docs) \<Rightarrow> (Inr defaultPrefs, st\<lparr>preferences_docs := docs\<rparr>))
               else (Inl e, st)))"

text \<open>
  The \<open>updates\<close> of \<open>updatePreferences\<close> are a partial document without \<open>_id\<close> and
  \<open>_rev\<close>: a list of field assignments, spread over the current document in order.
\<close>

datatype pref_update = SetTheme theme | SetColorScheme colorScheme | SetFontSize fontSize
  | SetAnimations bool | SetSounds bool | SetAutoSave bool | SetCloudSync bool
  | SetSupabaseUrl "string option" | SetSupabaseKey "string option"
  | SetLastSyncAt "string option" | SetAiSettings AiSettings | SetOnboardingComplete bool
  | SetVersion int

fun apply_update :: "pref_update \<Rightarrow> PreferencesDoc \<Rightarrow> PreferencesDoc" where
  "apply_update (SetTheme v) d = d\<lparr>pf_theme := v\<rparr>"
| "apply_update (SetColorScheme v) d = d\<lparr>pf_colorScheme := v\<rparr>"
| "apply_update (SetFontSize v) d = d\<lparr>pf_fontSize := v\<rparr>"
| "apply_update (SetAnimations v) d = d\<lparr>pf_animations := v\<rparr>"
| "apply_update (SetSounds v) d = d\<lparr>pf_sounds := v\<rparr>"
| "apply_update (SetAutoSave v) d = d\<lparr>pf_autoSave := v\<rparr>"
| "apply_update (SetCloudSync v) d = d\<lparr>pf_cloudSync := v\<rparr>"
| "apply_update (SetSupabaseUrl v) d = d\<lparr>pf_supabaseUrl := v\<rparr>"
| "apply_update (SetSupabaseKey v) d = d\<lparr>pf_supabaseKey := v\<rparr>"
| "apply_update (SetLastSyncAt v) d = d\<lparr>pf_lastSyncAt := v\<rparr>"
| "apply_update (SetAiSettings v) d = d\<lparr>pf_aiSettings := v\<rparr>"
| "apply_update (SetOnboardingComplete v) d = d\<lparr>pf_onboardingComplete := v\<rparr>"
| "apply_update (SetVersion v) d = d\<lparr>pf_version := v\<rparr>"

definition updatePreferences ::
  "env \<Rightarrow> pref_update list \<Rightarrow> app \<Rightarrow> (error + PreferencesDoc) \<times> app" where
  "updatePreferences env updates st =
     (case getPreferencesDB st of
        Inl e \<Rightarrow> (Inl e, st)
      | Inr db \<Rightarrow>
          (case getPreferences env st of
             (Inl e, st1) \<Rightarrow> (Inl e, st1)
           | (Inr current, st1) \<Rightarrow>
               (let updated = fold apply_update updates current
                in case pouch_put env db pf_id pf_rev set_pf_rev (preferences_docs st1)
                          updated of
                     Inl e \<Rightarrow> (Inl e, st1)
                   | Inr (new_rev, docs) \<Rightarrow>
                       (Inr (updated\<lparr>pf_rev := Some new_rev\<rparr>), st1\<lparr>preferences_docs := docs\<rparr>))))"

text \<open>
  An outside world in which no call of the library fails; \<open>rx\<close> is its
  regular-expression engine.
\<close>

definition no_faults :: "(string \<Rightarrow> (string \<Rightarrow> bool) option) \<Rightarrow> env" where
  "no_faults rx =
     \<lparr>createIndex_err = (\<lambda>db fs. None), close_err = (\<lambda>db. None),
      destroy_err = (\<lambda>db. None), sync_err = (\<lambda>url. None),
      store_err = (\<lambda>db op. None), regexp_i = rx\<rparr>"

section \<open>Scenarios\<close>

text \<open>
  Concrete inputs for the examples below: an outside world without faults (whose
  regular-expression engine rejects every pattern; no example searches by name), the state
  after \<open>initDatabases\<close> in it, and a source record.
\<close>

definition quiet :: env where
  "quiet = no_faults (\<lambda>s. None)"

definition ready :: app where
  "ready = snd (initDatabases quiet module_loaded)"

definition example_source :: source_doc where
  "example_source =
     \<lparr>src_id = Some ''rage-0001'', src_name = Some ''Rage'',
      src_system = Some (JObj [(''level'', JObj [(''value'', JNum 1)])]),
      src_img = None, src_folder = None, src_sort = None, src_flags = None\<rparr>"


text \<open>
  Two outside worlds with a fault: one in which creating an index fails, one in which
  every call on a database fails.
\<close>

definition index_failure :: env where
  "index_failure =
     quiet\<lparr>createIndex_err := (\<lambda>db fs. Some (PouchError 500 ''indexed_db_went_bad''))\<rparr>"

definition disk_failure :: env where
  "disk_failure =
     quiet\<lparr>store_err := (\<lambda>db op. Some (PouchError 500 ''indexed_db_went_bad''))\<rparr>"

text \<open>
  A store that holds three feats and a spell, documents of the shape the importer builds,
  and the query for the feats of level 3; a store with 120 feats, and the query without
  any criterion.
\<close>

definition feat_source :: "string \<Rightarrow> string \<Rightarrow> int \<Rightarrow> source_doc" where
  "feat_source i n l =
     \<lparr>src_id = Some i, src_name = Some n,
      src_system = Some (JObj [(''level'', JObj [(''value'', JNum l)])]),
      src_img = None, src_folder = None, src_sort = None, src_flags = None\<rparr>"

definition stocked :: app where
  "stocked =
     ready\<lparr>gamedata_docs :=
       [toGameDataDoc Pack_feats (feat_source ''feat-a'' ''Zeta Strike'' 3),
        toGameDataDoc Pack_feats (feat_source ''feat-b'' ''Alpha Strike'' 3),
        toGameDataDoc Pack_feats (feat_source ''feat-c'' ''Basic Dodge'' 1),
        toGameDataDoc Pack_spells (feat_source ''spell-a'' ''Fireball'' 3)]\<rparr>"

definition feats_at_3 :: GameDataQuery where
  "feats_at_3 =
     \<lparr>q_limit = None, q_skip = None, q_type = Some Feat, q_level = Some 3,
      q_traits = None, q_search = None\<rparr>"

definition crowded :: app where
  "crowded =
     ready\<lparr>gamedata_docs :=
       map (\<lambda>n. toGameDataDoc Pack_feats
                  (feat_source (''feat-'' @ string_of_nat (1000 + n)) ''Feat'' 1)) [0..<120]\<rparr>"

definition everything :: GameDataQuery where
  "everything =
     \<lparr>q_limit = None, q_skip = None, q_type = None, q_level = None, q_traits = None,
      q_search = None\<rparr>"

definition every_character :: CharacterQuery where
  "every_character =
     \<lparr>cq_limit = Some 0, cq_skip = None, cq_level = None, cq_classId = None,
      cq_minLevel = None, cq_maxLevel = None\<rparr>"

text \<open>
  A character as the builder hands it to \<open>createCharacter\<close>, the document the first
  save at 2024-11-11T10:00:00.000Z (\<open>Date.now()\<close> = 1731319200000) stores for it, and
  the state after that save.
\<close>

definition example_character :: CharacterInput where
  "example_character =
     \<lparr>ch_name = ''Valeros'', ch_level = 1, ch_experience = 0, ch_ancestryId = ''human'',
      ch_backgroundId = ''farmhand'', ch_classId = ''fighter'',
      ch_abilities =
        \<lparr>ab_str = 18, ab_dex = 14, ab_con = 14, ab_int = 10, ab_wis = 12, ab_cha = 10\<rparr>,
      ch_hp = \<lparr>hp_current = 20, hp_max = 20, hp_temp = 0\<rparr>,
      ch_skills = [(''athletics'', \<lparr>sk_rank = 1, sk_modifier = 7\<rparr>)],
      ch_feats = [\<lparr>fr_id = ''power-attack'', fr_level = 1, fr_featType = ''class''\<rparr>],
      ch_spells = None,
      ch_equipment =
        [\<lparr>eq_id = ''longsword'', eq_quantity = 1, eq_equipped = True, eq_invested = None\<rparr>],
      ch_wealth = \<lparr>w_cp = 0, w_sp = 0, w_gp = 15, w_pp = 0\<rparr>,
      ch_notes = []\<rparr>"

definition saved_character :: CharacterDoc where
  "saved_character =
     CharacterInput.extend example_character
       (CharacterDoc.fields ''character_1731319200000_k3x9q2m7p'' (Some 1)
          ''2024-11-11T10:00:00.000Z'' ''2024-11-11T10:00:00.000Z'' 1)"

definition first_save :: "(error + CharacterDoc) \<times> app" where
  "first_save =
     createCharacter quiet ''2024-11-11T10:00:00.000Z'' 1731319200000 ''0.k3x9q2m7pzta''
       example_character ready"

text \<open>
  Two remote endpoints, and the state in which a replication against the first is running.
\<close>

definition remote_a :: string where
  "remote_a = ''https://a.example.org/characters''"

definition remote_b :: string where
  "remote_b = ''https://b.example.org/characters''"

definition syncing :: app where
  "syncing = snd (startCharactersSync quiet remote_a ready)"

section \<open>The scenario state\<close>

lemma ready_eq:
  "ready =
     module_loaded
       \<lparr>gamedataDB := Some ''anvil2e_gamedata'', charactersDB := Some ''anvil2e_characters'',
        preferencesDB := Some ''anvil2e_preferences'',
        effects :=
          [Opened ''anvil2e_gamedata'', Opened ''anvil2e_characters'',
           Opened ''anvil2e_preferences'', IndexCreated ''anvil2e_gamedata'' [''type''],
           IndexCreated ''anvil2e_gamedata'' [''type'', ''system.level.value''],
           IndexCreated ''anvil2e_gamedata'' [''name''],
           IndexCreated ''anvil2e_characters'' [''level''],
           IndexCreated ''anvil2e_characters'' [''classId''],
           IndexCreated ''anvil2e_characters'' [''updatedAt'']]\<rparr>"
  by (simp add: ready_def quiet_def no_faults_def initDatabases_def createIndexes_def
      log_effect_def module_loaded_def)

section \<open>Properties of the bulk importer\<close>

text \<open>
  The identifier of a document of the batch is the source record's own identifier when
  it has a non-empty one, and otherwise the pack name, an underscore and the lowercased
  name (in which only a backslash followed by \<open>s\<close> is replaced).
\<close>

lemma toGameDataDoc_id:
  "(src_id doc = Some i \<and> i \<noteq> [] \<longrightarrow> gd_id (toGameDataDoc p doc) = i)
   \<and> (src_id doc = None \<or> src_id doc = Some [] \<longrightarrow>
        gd_id (toGameDataDoc p doc) =
          packName_str p @ ''_'' @
            (case src_name doc of
               None \<Rightarrow> ''undefined''
             | Some n \<Rightarrow> replace_backslash_s (toLowerCase n)))"
  by (auto simp: toGameDataDoc_def)

text \<open>
  No document of a batch has a revision, so the store rejects every non-empty batch and
  \<open>loadPack\<close> never changes the stored documents.
\<close>

lemma gameDataDocs_no_rev:
  "docs \<noteq> [] \<Longrightarrow> list_ex (\<lambda>d. gd_rev d = None) (gameDataDocs p docs)"
  by (cases docs) (simp_all add: gameDataDocs_def toGameDataDoc_def)

lemma bulkDocs_rejects:
  "docs \<noteq> [] \<Longrightarrow>
     db_bulkDocs gd_id gd_rev stored (gameDataDocs p docs) = Inl (PouchError 400 ''bad_request'')"
  by (simp add: db_bulkDocs_def gameDataDocs_no_rev)

lemma import_docs_nonempty:
  "docs \<noteq> [] \<Longrightarrow>
     import_docs env db p docs st =
       load_failed p
         (case store_err env db OpBulkDocs of
            Some e \<Rightarrow> e
          | None \<Rightarrow> PouchError 400 ''bad_request'')
         (log_effect (BulkDocsCalled db (gameDataDocs p docs)) st)"
  by (simp add: import_docs_def Let_def bulkDocs_rejects log_effect_def split: option.splits)



lemma loadPack_rejected:
  "gamedataDB st = Some db \<Longrightarrow> store_err env db OpBulkDocs = None \<Longrightarrow> docs \<noteq> [] \<Longrightarrow>
     fst (fst (loadPack env p (FetchArray docs) st)) = Inl (PouchError 400 ''bad_request'')"
  by (simp add: loadPack_def getGameDataDB_def import_docs_nonempty load_failed_def)

lemma loadPack_effects:
  "gamedataDB st = Some db \<Longrightarrow> docs \<noteq> [] \<Longrightarrow>
     effects (snd (loadPack env p (FetchArray docs) st))
       = effects st @ [BulkDocsCalled db (gameDataDocs p docs)]"
  by (simp add: loadPack_def getGameDataDB_def import_docs_nonempty load_failed_def
      log_effect_def)

lemma loadPack_outcome_any_pack:
  "fst (fst (loadPack env p (FetchArray docs) st))
     = fst (fst (loadPack env p' (FetchArray docs) st))"
proof (cases "docs = []")
  case True
  then show ?thesis
    by (simp add: loadPack_def getGameDataDB_def import_docs_def split: option.splits)
next
  case False
  then show ?thesis
    by (simp add: loadPack_def getGameDataDB_def import_docs_nonempty load_failed_def
        split: option.splits)
qed


text \<open>
  C8, as the code has it. \<open>getTypeFromPackName\<close> never raises. The ten pack names of
  its table give their own tag; the three other pack names the importer knows
  (\<open>classfeatures\<close>, \<open>bestiary-ability-glossary-srd\<close>, \<open>domains\<close>) give the default tag
  \<open>feat\<close>. Every document of the batch \<open>loadPack\<close> builds for a pack carries
  \<open>getTypeFromPackName\<close> of that pack, and that batch is what \<open>loadPack\<close> hands to the
  store. What \<open>loadPack\<close> returns or throws for given source records is the same for
  every pack name: a name that is not in the table causes no error of its own.
\<close>

theorem pack_tags:
  "map getTypeFromPackName (CORE_PACKS @ OPTIONAL_PACKS) =
     [Ancestry, Background, Class, Feat, Feat, Spell, Equipment, Action,
      Bestiary, Feat, Condition, Deity, Feat]
   \<and> (\<forall>d \<in> set (gameDataDocs p docs). gd_type d = getTypeFromPackName p)
   \<and> (gamedataDB st = Some db \<and> docs \<noteq> [] \<longrightarrow>
        effects (snd (loadPack env p (FetchArray docs) st))
          = effects st @ [BulkDocsCalled db (gameDataDocs p docs)])
   \<and> fst (fst (loadPack env p (FetchArray docs) st))
       = fst (fst (loadPack env p' (FetchArray docs) st))"
proof (intro conjI impI)
  show "map getTypeFromPackName (CORE_PACKS @ OPTIONAL_PACKS) =
     [Ancestry, Background, Class, Feat, Feat, Spell, Equipment, Action,
      Bestiary, Feat, Condition, Deity, Feat]"
    by (simp add: CORE_PACKS_def OPTIONAL_PACKS_def getTypeFromPackName_def typeMap_def)
  show "\<forall>d \<in> set (gameDataDocs p docs). gd_type d = getTypeFromPackName p"
    by (auto simp: gameDataDocs_def toGameDataDoc_def)
  show "fst (fst (loadPack env p (FetchArray docs) st))
       = fst (fst (loadPack env p' (FetchArray docs) st))"
    by (rule loadPack_outcome_any_pack)
  assume "gamedataDB st = Some db \<and> docs \<noteq> []"
  then show "effects (snd (loadPack env p (FetchArray docs) st))
          = effects st @ [BulkDocsCalled db (gameDataDocs p docs)]"
    by (simp add: loadPack_effects)
qed

theorem pack_tags_witness:
  "toGameDataDoc Pack_spells example_source \<in> set (gameDataDocs Pack_spells [example_source])
   \<and> gd_type (toGameDataDoc Pack_spells example_source) = Spell
   \<and> gamedataDB ready = Some ''anvil2e_gamedata''
   \<and> effects (snd (loadPack quiet Pack_spells (FetchArray [example_source]) ready))
       = effects ready @
           [BulkDocsCalled ''anvil2e_gamedata'' (gameDataDocs Pack_spells [example_source])]"
proof -
  let ?d = "toGameDataDoc Pack_spells example_source"
  have mem: "?d \<in> set (gameDataDocs Pack_spells [example_source])"
    by (simp add: gameDataDocs_def)
  have tag: "getTypeFromPackName Pack_spells = Spell"
    by (simp add: getTypeFromPackName_def typeMap_def)
  have h: "gamedataDB ready = Some ''anvil2e_gamedata'' \<and> [example_source] \<noteq> []"
    by (simp add: ready_eq module_loaded_def)
  note t = pack_tags [where p = Pack_spells and docs = "[example_source]" and st = ready
      and db = "''anvil2e_gamedata''" and env = quiet]
  from t mem have "gd_type ?d = getTypeFromPackName Pack_spells" by blast
  moreover from t h
  have "effects (snd (loadPack quiet Pack_spells (FetchArray [example_source]) ready))
       = effects ready @
           [BulkDocsCalled ''anvil2e_gamedata'' (gameDataDocs Pack_spells [example_source])]"
    by blast
  ultimately show ?thesis using mem tag h by simp
qed

text \<open>
  C8, as the specification states it, fails: \<open>classfeatures\<close> is not in the table, and
  the record built for it carries \<open>feat\<close>, the tag of the \<open>feats\<close> pack, and is handed to
  the store so; its import returns 0 for an empty pack, and for a non-empty one throws
  what the import of \<open>feats\<close> throws.
\<close>

theorem classfeatures_tagged_feat:
  "map_of typeMap (packName_str Pack_classfeatures) = None
   \<and> getTypeFromPackName Pack_classfeatures = Feat
   \<and> getTypeFromPackName Pack_feats = Feat
   \<and> map gd_type (gameDataDocs Pack_classfeatures [example_source]) = [Feat]
   \<and> effects (snd (loadPack quiet Pack_classfeatures (FetchArray [example_source]) ready))
       = effects ready @
           [BulkDocsCalled ''anvil2e_gamedata''
              (gameDataDocs Pack_classfeatures [example_source])]
   \<and> fst (fst (loadPack quiet Pack_classfeatures (FetchArray []) ready)) = Inr 0
   \<and> fst (fst (loadPack quiet Pack_classfeatures (FetchArray [example_source]) ready))
       = Inl (PouchError 400 ''bad_request'')
   \<and> fst (fst (loadPack quiet Pack_feats (FetchArray [example_source]) ready))
       = Inl (PouchError 400 ''bad_request'')"
proof -
  have h: "gamedataDB ready = Some ''anvil2e_gamedata''"
    by (simp add: ready_eq module_loaded_def)
  have a: "map_of typeMap (packName_str Pack_classfeatures) = None
      \<and> getTypeFromPackName Pack_classfeatures = Feat
      \<and> getTypeFromPackName Pack_feats = Feat
      \<and> map gd_type (gameDataDocs Pack_classfeatures [example_source]) = [Feat]"
    by (simp add: getTypeFromPackName_def typeMap_def gameDataDocs_def toGameDataDoc_def)
  have b: "effects (snd (loadPack quiet Pack_classfeatures (FetchArray [example_source]) ready))
       = effects ready @
           [BulkDocsCalled ''anvil2e_gamedata''
              (gameDataDocs Pack_classfeatures [example_source])]"
    by (rule loadPack_effects [OF h]) simp
  have c: "fst (fst (loadPack quiet Pack_classfeatures (FetchArray []) ready)) = Inr 0"
    by (simp add: loadPack_def getGameDataDB_def h import_docs_def)
  have q: "store_err quiet ''anvil2e_gamedata'' OpBulkDocs = None"
    by (simp add: quiet_def no_faults_def)
  have d: "fst (fst (loadPack quiet Pack_classfeatures (FetchArray [example_source]) ready))
       = Inl (PouchError 400 ''bad_request'')"
    by (rule loadPack_rejected [OF h q]) simp
  have e: "fst (fst (loadPack quiet Pack_feats (FetchArray [example_source]) ready))
       = Inl (PouchError 400 ''bad_request'')"
    by (rule loadPack_rejected [OF h q]) simp
  from a b c d e show ?thesis by simp
qed

section \<open>Properties of the handles\<close>

lemma createIndex_all_handles:
  "gamedataDB (snd (createIndex_all env xs st)) = gamedataDB st \<and>
   charactersDB (snd (createIndex_all env xs st)) = charactersDB st \<and>
   preferencesDB (snd (createIndex_all env xs st)) = preferencesDB st"
  by (induction xs arbitrary: st) (auto simp: log_effect_def split: option.splits)

lemma initDatabases_handles:
  "gamedataDB (snd (initDatabases env st)) = Some ''anvil2e_gamedata'' \<and>
   charactersDB (snd (initDatabases env st)) = Some ''anvil2e_characters'' \<and>
   preferencesDB (snd (initDatabases env st)) = Some ''anvil2e_preferences''"
  by (simp add: initDatabases_def createIndexes_def createIndex_all_handles log_effect_def
      del: createIndex_all.simps)

lemma closeDatabases_handles:
  "fst (closeDatabases env st) = Inr () \<Longrightarrow>
     gamedataDB (snd (closeDatabases env st)) = None \<and>
     charactersDB (snd (closeDatabases env st)) = None \<and>
     preferencesDB (snd (closeDatabases env st)) = None"
  by (auto simp: closeDatabases_def split: prod.splits sum.splits)

text \<open>
  C9, as the code has it. An accessor throws its "not initialized" error exactly while
  its module variable is unset: right after module load and after a successful
  \<open>closeDatabases\<close>. The query layer and \<open>loadPack\<close> call the accessor first and pass
  the error on, with the state as it was. \<open>initDatabases\<close> sets the three variables
  before it creates the indexes, so after it was entered the accessors return the
  handles, whatever index creation did.
\<close>

theorem accessors_uninitialized:
  "getGameDataDB module_loaded = Inl (uninitialized ''Gamedata'')
   \<and> getCharactersDB module_loaded = Inl (uninitialized ''Characters'')
   \<and> getPreferencesDB module_loaded = Inl (uninitialized ''Preferences'')
   \<and> (fst (closeDatabases env st) = Inr () \<longrightarrow>
        getGameDataDB (snd (closeDatabases env st)) = Inl (uninitialized ''Gamedata'')
        \<and> getCharactersDB (snd (closeDatabases env st)) = Inl (uninitialized ''Characters'')
        \<and> getPreferencesDB (snd (closeDatabases env st)) = Inl (uninitialized ''Preferences''))
   \<and> (gamedataDB st = None \<longrightarrow>
        getGameDataDB st = Inl (uninitialized ''Gamedata'')
        \<and> getGameDataById env i st = Inl (uninitialized ''Gamedata'')
        \<and> queryGameData env q st = Inl (uninitialized ''Gamedata'')
        \<and> loadPack env p response st = ((Inl (uninitialized ''Gamedata''), []), st))
   \<and> (charactersDB st = None \<longrightarrow>
        getCharactersDB st = Inl (uninitialized ''Characters'')
        \<and> getCharacterById env i st = Inl (uninitialized ''Characters'')
        \<and> queryCharacters env cq st = Inl (uninitialized ''Characters'')
        \<and> createCharacter env now ms rnd c st = (Inl (uninitialized ''Characters''), st)
        \<and> updateCharacter env now d st = (Inl (uninitialized ''Characters''), st)
        \<and> deleteCharacter env i st = (Inl (uninitialized ''Characters''), st))
   \<and> (preferencesDB st = None \<longrightarrow>
        getPreferencesDB st = Inl (uninitialized ''Preferences'')
        \<and> getPreferences env st = (Inl (uninitialized ''Preferences''), st)
        \<and> updatePreferences env us st = (Inl (uninitialized ''Preferences''), st))
   \<and> getGameDataDB (snd (initDatabases env st)) = Inr ''anvil2e_gamedata''
   \<and> getCharactersDB (snd (initDatabases env st)) = Inr ''anvil2e_characters''
   \<and> getPreferencesDB (snd (initDatabases env st)) = Inr ''anvil2e_preferences''"
proof -
  have a: "getGameDataDB module_loaded = Inl (uninitialized ''Gamedata'')
      \<and> getCharactersDB module_loaded = Inl (uninitialized ''Characters'')
      \<and> getPreferencesDB module_loaded = Inl (uninitialized ''Preferences'')"
    by (simp add: getGameDataDB_def getCharactersDB_def getPreferencesDB_def
        module_loaded_def uninitialized_def)
  have b: "fst (closeDatabases env st) = Inr () \<longrightarrow>
        getGameDataDB (snd (closeDatabases env st)) = Inl (uninitialized ''Gamedata'')
        \<and> getCharactersDB (snd (closeDatabases env st)) = Inl (uninitialized ''Characters'')
        \<and> getPreferencesDB (snd (closeDatabases env st)) = Inl (uninitialized ''Preferences'')"
    using closeDatabases_handles [of env st]
    by (simp add: getGameDataDB_def getCharactersDB_def getPreferencesDB_def uninitialized_def)
  have c: "gamedataDB st = None \<longrightarrow>
        getGameDataDB st = Inl (uninitialized ''Gamedata'')
        \<and> getGameDataById env i st = Inl (uninitialized ''Gamedata'')
        \<and> queryGameData env q st = Inl (uninitialized ''Gamedata'')
        \<and> loadPack env p response st = ((Inl (uninitialized ''Gamedata''), []), st)"
    by (simp add: getGameDataDB_def getGameDataById_def queryGameData_def loadPack_def
        uninitialized_def)
  have d: "charactersDB st = None \<longrightarrow>
        getCharactersDB st = Inl (uninitialized ''Characters'')
        \<and> getCharacterById env i st = Inl (uninitialized ''Characters'')
        \<and> queryCharacters env cq st = Inl (uninitialized ''Characters'')
        \<and> createCharacter env now ms rnd c st = (Inl (uninitialized ''Characters''), st)
        \<and> updateCharacter env now d st = (Inl (uninitialized ''Characters''), st)
        \<and> deleteCharacter env i st = (Inl (uninitialized ''Characters''), st)"
    by (simp add: getCharactersDB_def getCharacterById_def queryCharacters_def
        createCharacter_def updateCharacter_def deleteCharacter_def uninitialized_def)
  have e: "preferencesDB st = None \<longrightarrow>
        getPreferencesDB st = Inl (uninitialized ''Preferences'')
        \<and> getPreferences env st = (Inl (uninitialized ''Preferences''), st)
        \<and> updatePreferences env us st = (Inl (uninitialized ''Preferences''), st)"
    by (simp add: getPreferencesDB_def getPreferences_def updatePreferences_def
        uninitialized_def)
  have f: "getGameDataDB (snd (initDatabases env st)) = Inr ''anvil2e_gamedata''
      \<and> getCharactersDB (snd (initDatabases env st)) = Inr ''anvil2e_characters''
      \<and> getPreferencesDB (snd (initDatabases env st)) = Inr ''anvil2e_preferences''"
    by (simp add: getGameDataDB_def getCharactersDB_def getPreferencesDB_def
        initDatabases_handles)
  from a b c d e f show ?thesis by blast
qed

lemma close_ready: "closeDatabases quiet ready =
   (Inr (), ready\<lparr>gamedataDB := None, charactersDB := None, preferencesDB := None,
       effects := effects ready @ [Closed ''anvil2e_gamedata'', Closed ''anvil2e_characters'', Closed ''anvil2e_preferences'']\<rparr>)"
  by (simp add: closeDatabases_def ready_eq module_loaded_def quiet_def no_faults_def log_effect_def)

theorem accessors_uninitialized_witness:
  "fst (closeDatabases quiet ready) = Inr ()
   \<and> getGameDataDB (snd (closeDatabases quiet ready)) = Inl (uninitialized ''Gamedata'')
   \<and> getCharactersDB (snd (closeDatabases quiet ready)) = Inl (uninitialized ''Characters'')
   \<and> getPreferencesDB (snd (closeDatabases quiet ready)) = Inl (uninitialized ''Preferences'')
   \<and> gamedataDB module_loaded = None
   \<and> getGameDataById quiet ''rage-0001'' module_loaded = Inl (uninitialized ''Gamedata'')
   \<and> charactersDB module_loaded = None
   \<and> deleteCharacter quiet ''character_1_a'' module_loaded
        = (Inl (uninitialized ''Characters''), module_loaded)
   \<and> preferencesDB module_loaded = None
   \<and> getPreferences quiet module_loaded = (Inl (uninitialized ''Preferences''), module_loaded)"
proof -
  have c: "fst (closeDatabases quiet ready) = Inr ()" by (simp add: close_ready)
  have g: "gamedataDB module_loaded = None" and h: "charactersDB module_loaded = None"
    and p: "preferencesDB module_loaded = None"
    by (simp_all add: module_loaded_def)
  from accessors_uninitialized [where env = quiet and st = ready] c have "getGameDataDB (snd (closeDatabases quiet ready)) = Inl (uninitialized ''Gamedata'')
   \<and> getCharactersDB (snd (closeDatabases quiet ready)) = Inl (uninitialized ''Characters'')
   \<and> getPreferencesDB (snd (closeDatabases quiet ready)) = Inl (uninitialized ''Preferences'')"
    by blast
  moreover from accessors_uninitialized [where env = quiet and st = module_loaded and i = "''rage-0001''"] g
  have "getGameDataById quiet ''rage-0001'' module_loaded = Inl (uninitialized ''Gamedata'')" by blast
  moreover from accessors_uninitialized [where env = quiet and st = module_loaded and i = "''character_1_a''"] h
  have "deleteCharacter quiet ''character_1_a'' module_loaded
        = (Inl (uninitialized ''Characters''), module_loaded)" by blast
  moreover from accessors_uninitialized [where env = quiet and st = module_loaded] p
  have "getPreferences quiet module_loaded = (Inl (uninitialized ''Preferences''), module_loaded)" by blast
  ultimately show ?thesis using c g h p by blast
qed

text \<open>
  C9, as the specification states it, fails: when index creation fails, \<open>initDatabases\<close> throws, so
  initialisation never completed, and yet every accessor returns its handle.
\<close>

theorem init_failed_accessor_ok:
  "fst (initDatabases index_failure module_loaded) = Inl (PouchError 500 ''indexed_db_went_bad'')
   \<and> getGameDataDB (snd (initDatabases index_failure module_loaded)) = Inr ''anvil2e_gamedata''
   \<and> getCharactersDB (snd (initDatabases index_failure module_loaded)) = Inr ''anvil2e_characters''
   \<and> getPreferencesDB (snd (initDatabases index_failure module_loaded)) = Inr ''anvil2e_preferences''"
  by (simp add: initDatabases_def createIndexes_def index_failure_def quiet_def no_faults_def
      log_effect_def module_loaded_def getGameDataDB_def getCharactersDB_def getPreferencesDB_def)


section \<open>Properties of the lookups\<close>

lemma db_get_missing: "i \<notin> k ` set docs \<Longrightarrow> db_get k docs i = Inl (PouchError 404 ''not_found'')"
  by (auto simp: db_get_def find_None_iff split: option.splits)

lemma db_get_status: "db_get k docs i = Inl e \<Longrightarrow> e = PouchError 404 ''not_found'' \<and> i \<notin> k ` set docs"
  by (auto simp: db_get_def find_None_iff split: option.splits)

text \<open>
  C7. For an identifier no stored document has, \<open>getGameDataById\<close> and
  \<open>getCharacterById\<close> on an opened database return null (\<open>Inr None\<close>) when the store
  answers. Whatever they throw has a status other than 404: it is the error of the
  accessor (the handle is unset) or the error the store rejected the \<open>get\<close> with.
\<close>

theorem lookup_not_found:
  "(gamedataDB st = Some db \<and> store_err env db OpGet = None \<and> i \<notin> gd_id ` set (gamedata_docs st)
      \<longrightarrow> getGameDataById env i st = Inr None)
   \<and> (charactersDB st = Some db' \<and> store_err env db' OpGet = None \<and> j \<notin> ch_id ` set (characters_docs st)
      \<longrightarrow> getCharacterById env j st = Inr None)
   \<and> (getGameDataById env i st = Inl e \<longrightarrow>
        status e \<noteq> Some 404 \<and>
        (getGameDataDB st = Inl e \<or> (\<exists>h. gamedataDB st = Some h \<and> store_err env h OpGet = Some e)))
   \<and> (getCharacterById env j st = Inl e' \<longrightarrow>
        status e' \<noteq> Some 404 \<and>
        (getCharactersDB st = Inl e' \<or> (\<exists>h. charactersDB st = Some h \<and> store_err env h OpGet = Some e')))"
proof -
  have a: "gamedataDB st = Some db \<and> store_err env db OpGet = None \<and> i \<notin> gd_id ` set (gamedata_docs st)
      \<longrightarrow> getGameDataById env i st = Inr None"
    by (simp add: getGameDataById_def getGameDataDB_def pouch_get_def db_get_missing)
  have b: "charactersDB st = Some db' \<and> store_err env db' OpGet = None \<and> j \<notin> ch_id ` set (characters_docs st)
      \<longrightarrow> getCharacterById env j st = Inr None"
    by (simp add: getCharacterById_def getCharactersDB_def pouch_get_def db_get_missing)
  have c: "getGameDataById env i st = Inl e \<longrightarrow>
        status e \<noteq> Some 404 \<and>
        (getGameDataDB st = Inl e \<or> (\<exists>h. gamedataDB st = Some h \<and> store_err env h OpGet = Some e))"
    by (auto simp: getGameDataById_def getGameDataDB_def pouch_get_def
        split: option.splits sum.splits if_splits dest: db_get_status)
  have d: "getCharacterById env j st = Inl e' \<longrightarrow>
        status e' \<noteq> Some 404 \<and>
        (getCharactersDB st = Inl e' \<or> (\<exists>h. charactersDB st = Some h \<and> store_err env h OpGet = Some e'))"
    by (auto simp: getCharacterById_def getCharactersDB_def pouch_get_def
        split: option.splits sum.splits if_splits dest: db_get_status)
  from a b c d show ?thesis by blast
qed

theorem lookup_not_found_witness:
  "getGameDataById quiet ''no-such-feat'' ready = Inr None
   \<and> getCharacterById quiet ''character_0_none'' ready = Inr None
   \<and> getGameDataById disk_failure ''no-such-feat'' ready = Inl (PouchError 500 ''indexed_db_went_bad'')
   \<and> getCharacterById disk_failure ''character_0_none'' ready = Inl (PouchError 500 ''indexed_db_went_bad'')
   \<and> status (PouchError 500 ''indexed_db_went_bad'') \<noteq> Some 404"
proof -
  have g: "gamedataDB ready = Some ''anvil2e_gamedata'' \<and>
      store_err quiet ''anvil2e_gamedata'' OpGet = None \<and>
      ''no-such-feat'' \<notin> gd_id ` set (gamedata_docs ready)"
    by (simp add: ready_eq module_loaded_def quiet_def no_faults_def)
  have c: "charactersDB ready = Some ''anvil2e_characters'' \<and>
      store_err quiet ''anvil2e_characters'' OpGet = None \<and>
      ''character_0_none'' \<notin> ch_id ` set (characters_docs ready)"
    by (simp add: ready_eq module_loaded_def quiet_def no_faults_def)
  have tg: "getGameDataById disk_failure ''no-such-feat'' ready = Inl (PouchError 500 ''indexed_db_went_bad'')"
    by (simp add: getGameDataById_def getGameDataDB_def pouch_get_def disk_failure_def
        ready_eq module_loaded_def)
  have tc: "getCharacterById disk_failure ''character_0_none'' ready = Inl (PouchError 500 ''indexed_db_went_bad'')"
    by (simp add: getCharacterById_def getCharactersDB_def pouch_get_def disk_failure_def
        ready_eq module_loaded_def)
  note t = lookup_not_found [of ready "''anvil2e_gamedata''" quiet "''no-such-feat''"
      "''anvil2e_characters''" "''character_0_none''"]
  note u = lookup_not_found [of ready _ disk_failure "''no-such-feat''" _ "''character_0_none''"
      "PouchError 500 ''indexed_db_went_bad''" "PouchError 500 ''indexed_db_went_bad''"]
  from t g c have "getGameDataById quiet ''no-such-feat'' ready = Inr None"
    and "getCharacterById quiet ''character_0_none'' ready = Inr None" by blast+
  moreover from u tg have "status (PouchError 500 ''indexed_db_went_bad'') \<noteq> Some 404" by blast
  ultimately show ?thesis using tg tc by blast
qed

section \<open>Properties of the queries\<close>

lemma db_find_sound: "d \<in> set (db_find sel lim skp docs) \<Longrightarrow> d \<in> set docs \<and> sel d"
proof -
  assume "d \<in> set (db_find sel lim skp docs)"
  then have "d \<in> set (filter sel docs)"
    unfolding db_find_def by (meson in_set_takeD in_set_dropD)
  then show ?thesis by simp
qed

lemma db_find_length: "length (db_find sel lim skp docs) \<le> lim"
  by (simp add: db_find_def)

lemma db_find_sorted: "sorted_wrt R (map k docs) \<Longrightarrow> sorted_wrt R (map k (db_find sel lim skp docs))"
  unfolding db_find_def sorted_wrt_map
  by (intro sorted_wrt_take sorted_wrt_drop sorted_wrt_filter)

lemma queryGameData_result:
  "queryGameData env q st = Inr ds \<Longrightarrow>
     \<exists>rx. ds = db_find (gd_matches (gd_selector_of q rx))
        (case q_limit q of None \<Rightarrow> 100 | Some n \<Rightarrow> if n = 0 then 100 else n)
        (case q_skip q of None \<Rightarrow> 0 | Some n \<Rightarrow> n) (gamedata_docs st)"
  by (auto simp: queryGameData_def pouch_find_def split: sum.splits option.splits)


lemma gd_matches_type_level:
  "q_type q = Some t \<Longrightarrow> q_level q = Some l \<Longrightarrow> gd_matches (gd_selector_of q rx) d \<Longrightarrow>
   gd_type d = t \<and> json_path [''level'', ''value''] (gd_system d) = Some (JNum l)"
  by (simp add: gd_matches_def gd_selector_of_def)

lemma gd_matches_only_type_level:
  "q_type q = Some t \<Longrightarrow> q_level q = Some l \<Longrightarrow> q_traits q = None \<Longrightarrow>
   gd_matches (gd_selector_of q None) =
      (\<lambda>d. gd_type d = t \<and> json_path [''level'', ''value''] (gd_system d) = Some (JNum l))"
  by (rule ext) (simp add: gd_matches_def gd_selector_of_def)

lemma queryGameData_plain:
  "gamedataDB st = Some db \<Longrightarrow> store_err env db OpFind = None \<Longrightarrow> q_search q = None \<Longrightarrow>
   queryGameData env q st =
     Inr (db_find (gd_matches (gd_selector_of q None))
        (case q_limit q of None \<Rightarrow> 100 | Some n \<Rightarrow> if n = 0 then 100 else n)
        (case q_skip q of None \<Rightarrow> 0 | Some n \<Rightarrow> n) (gamedata_docs st))"
  by (simp add: queryGameData_def getGameDataDB_def search_regexp_def pouch_find_def)

lemma queryCharacters_result:
  "queryCharacters env q st = Inr ds \<Longrightarrow>
     ds = db_find (ch_matches (ch_selector_of q))
        (case cq_limit q of None \<Rightarrow> 100 | Some n \<Rightarrow> if n = 0 then 100 else n)
        (case cq_skip q of None \<Rightarrow> 0 | Some n \<Rightarrow> n) (characters_docs st)"
  by (auto simp: queryCharacters_def pouch_find_def split: sum.splits option.splits)

lemma stocked_docs:
  "gamedata_docs stocked =
     [toGameDataDoc Pack_feats (feat_source ''feat-a'' ''Zeta Strike'' 3),
      toGameDataDoc Pack_feats (feat_source ''feat-b'' ''Alpha Strike'' 3),
      toGameDataDoc Pack_feats (feat_source ''feat-c'' ''Basic Dodge'' 1),
      toGameDataDoc Pack_spells (feat_source ''spell-a'' ''Fireball'' 3)]"
  by (simp add: stocked_def)

lemma stocked_handle: "gamedataDB stocked = Some ''anvil2e_gamedata''"
  by (simp add: stocked_def ready_eq module_loaded_def)

text \<open>
  C2, as the code has it. For a query with a category tag and an exact level,
  \<open>queryGameData\<close> returns only stored records that carry the tag and whose
  \<open>system.level.value\<close> is the level, at most \<open>limit\<close> of them (100 when the limit is
  absent or 0), in the order of the store, which is ascending \<open>_id\<close>, not the name.
  With no other criterion, on an opened database whose \<open>find\<close> answers, the result is
  exactly the matching records after \<open>skip\<close>, cut at the limit: the empty list, and no
  error, when nothing matches.
\<close>

theorem queryGameData_type_level:
  assumes "q_type q = Some t" and "q_level q = Some l"
  shows "(\<forall>ds. queryGameData env q st = Inr ds \<longrightarrow>
            (\<forall>d \<in> set ds. d \<in> set (gamedata_docs st) \<and> gd_type d = t \<and>
               json_path [''level'', ''value''] (gd_system d) = Some (JNum l))
            \<and> length ds \<le> (case q_limit q of None \<Rightarrow> 100 | Some n \<Rightarrow> if n = 0 then 100 else n)
            \<and> (sorted_wrt (<) (map gd_id (gamedata_docs st)) \<longrightarrow> sorted_wrt (<) (map gd_id ds)))
       \<and> (gamedataDB st = Some db \<and> store_err env db OpFind = None \<and> q_traits q = None \<and>
            q_search q = None \<longrightarrow>
          queryGameData env q st =
            Inr (take (case q_limit q of None \<Rightarrow> 100 | Some n \<Rightarrow> if n = 0 then 100 else n)
                  (drop (case q_skip q of None \<Rightarrow> 0 | Some n \<Rightarrow> n)
                    (filter (\<lambda>d. gd_type d = t \<and>
                        json_path [''level'', ''value''] (gd_system d) = Some (JNum l))
                      (gamedata_docs st)))))"
proof (intro conjI allI impI)
  fix ds assume r: "queryGameData env q st = Inr ds"
  then obtain rx where ds: "ds = db_find (gd_matches (gd_selector_of q rx))
        (case q_limit q of None \<Rightarrow> 100 | Some n \<Rightarrow> if n = 0 then 100 else n)
        (case q_skip q of None \<Rightarrow> 0 | Some n \<Rightarrow> n) (gamedata_docs st)"
    using queryGameData_result by blast
  show "\<forall>d \<in> set ds. d \<in> set (gamedata_docs st) \<and> gd_type d = t \<and>
               json_path [''level'', ''value''] (gd_system d) = Some (JNum l)"
  proof
    fix d assume "d \<in> set ds"
    then have "d \<in> set (gamedata_docs st) \<and> gd_matches (gd_selector_of q rx) d"
      unfolding ds by (rule db_find_sound)
    with gd_matches_type_level [OF assms, of rx d]
    show "d \<in> set (gamedata_docs st) \<and> gd_type d = t \<and>
               json_path [''level'', ''value''] (gd_system d) = Some (JNum l)"
      by blast
  qed
  show "length ds \<le> (case q_limit q of None \<Rightarrow> 100 | Some n \<Rightarrow> if n = 0 then 100 else n)"
    unfolding ds by (rule db_find_length)
  assume "sorted_wrt (<) (map gd_id (gamedata_docs st))"
  then show "sorted_wrt (<) (map gd_id ds)"
    unfolding ds by (rule db_find_sorted)
next
  assume h: "gamedataDB st = Some db \<and> store_err env db OpFind = None \<and> q_traits q = None \<and>
            q_search q = None"
  then have "queryGameData env q st =
     Inr (db_find (gd_matches (gd_selector_of q None))
        (case q_limit q of None \<Rightarrow> 100 | Some n \<Rightarrow> if n = 0 then 100 else n)
        (case q_skip q of None \<Rightarrow> 0 | Some n \<Rightarrow> n) (gamedata_docs st))"
    by (intro queryGameData_plain [of st db]) simp_all
  also have "gd_matches (gd_selector_of q None) =
      (\<lambda>d. gd_type d = t \<and> json_path [''level'', ''value''] (gd_system d) = Some (JNum l))"
    using assms h by (intro gd_matches_only_type_level) simp_all
  finally show "queryGameData env q st =
            Inr (take (case q_limit q of None \<Rightarrow> 100 | Some n \<Rightarrow> if n = 0 then 100 else n)
                  (drop (case q_skip q of None \<Rightarrow> 0 | Some n \<Rightarrow> n)
                    (filter (\<lambda>d. gd_type d = t \<and>
                        json_path [''level'', ''value''] (gd_system d) = Some (JNum l))
                      (gamedata_docs st))))"
    unfolding db_find_def .
qed

lemma feats_at_3_docs:
  "filter (\<lambda>d. gd_type d = Feat \<and> json_path [''level'', ''value''] (gd_system d) = Some (JNum 3))
     (gamedata_docs stocked) =
     [toGameDataDoc Pack_feats (feat_source ''feat-a'' ''Zeta Strike'' 3),
      toGameDataDoc Pack_feats (feat_source ''feat-b'' ''Alpha Strike'' 3)]"
  by (simp add: stocked_docs toGameDataDoc_def feat_source_def getTypeFromPackName_def typeMap_def)

theorem queryGameData_type_level_witness:
  "q_type feats_at_3 = Some Feat \<and> q_level feats_at_3 = Some 3
   \<and> queryGameData quiet feats_at_3 stocked =
       Inr [toGameDataDoc Pack_feats (feat_source ''feat-a'' ''Zeta Strike'' 3),
            toGameDataDoc Pack_feats (feat_source ''feat-b'' ''Alpha Strike'' 3)]"
proof -
  have t: "q_type feats_at_3 = Some Feat" and l: "q_level feats_at_3 = Some 3"
    by (simp_all add: feats_at_3_def)
  have h: "gamedataDB stocked = Some ''anvil2e_gamedata'' \<and>
      store_err quiet ''anvil2e_gamedata'' OpFind = None \<and>
      q_traits feats_at_3 = None \<and> q_search feats_at_3 = None"
    by (simp add: stocked_handle quiet_def no_faults_def feats_at_3_def)
  have lim: "q_limit feats_at_3 = None" and skp: "q_skip feats_at_3 = None"
    by (simp_all add: feats_at_3_def)
  from queryGameData_type_level [OF t l, of quiet stocked "''anvil2e_gamedata''"] h
  have "queryGameData quiet feats_at_3 stocked =
      Inr (take (case q_limit feats_at_3 of None \<Rightarrow> 100 | Some n \<Rightarrow> if n = 0 then 100 else n)
        (drop (case q_skip feats_at_3 of None \<Rightarrow> 0 | Some n \<Rightarrow> n)
          (filter (\<lambda>d. gd_type d = Feat \<and>
              json_path [''level'', ''value''] (gd_system d) = Some (JNum 3))
            (gamedata_docs stocked))))"
    by blast
  then have "queryGameData quiet feats_at_3 stocked =
       Inr [toGameDataDoc Pack_feats (feat_source ''feat-a'' ''Zeta Strike'' 3),
            toGameDataDoc Pack_feats (feat_source ''feat-b'' ''Alpha Strike'' 3)]"
    unfolding feats_at_3_docs lim skp by simp
  with t l show ?thesis by simp
qed

text \<open>
  C2, as the specification states it, fails: two feats of level 3 come back in the order of their
  identifiers, \<open>Zeta Strike\<close> before \<open>Alpha Strike\<close>, which is not ascending by name.
\<close>

theorem query_not_sorted_by_name:
  "queryGameData quiet feats_at_3 stocked =
     Inr [toGameDataDoc Pack_feats (feat_source ''feat-a'' ''Zeta Strike'' 3),
          toGameDataDoc Pack_feats (feat_source ''feat-b'' ''Alpha Strike'' 3)]
   \<and> map gd_name [toGameDataDoc Pack_feats (feat_source ''feat-a'' ''Zeta Strike'' 3),
          toGameDataDoc Pack_feats (feat_source ''feat-b'' ''Alpha Strike'' 3)]
       = [''Zeta Strike'', ''Alpha Strike'']
   \<and> \<not> sorted [''Zeta Strike'', ''Alpha Strike'']"
  by (simp add: queryGameData_def getGameDataDB_def search_regexp_def stocked_handle
      stocked_docs pouch_find_def db_find_def quiet_def no_faults_def feats_at_3_def
      gd_matches_def gd_selector_of_def toGameDataDoc_def feat_source_def
      getTypeFromPackName_def typeMap_def)

text \<open>
  C10. When the query gives no limit, or the limit 0, \<open>queryGameData\<close> and
  \<open>queryCharacters\<close> return at most 100 documents.
\<close>

theorem implicit_limit:
  "((q_limit q = None \<or> q_limit q = Some 0) \<and> queryGameData env q st = Inr ds
      \<longrightarrow> length ds \<le> 100)
   \<and> ((cq_limit cq = None \<or> cq_limit cq = Some 0) \<and> queryCharacters env cq st = Inr cs
      \<longrightarrow> length cs \<le> 100)"
proof (intro conjI impI)
  assume h: "(q_limit q = None \<or> q_limit q = Some 0) \<and> queryGameData env q st = Inr ds"
  then obtain rx where "ds = db_find (gd_matches (gd_selector_of q rx))
        (case q_limit q of None \<Rightarrow> 100 | Some n \<Rightarrow> if n = 0 then 100 else n)
        (case q_skip q of None \<Rightarrow> 0 | Some n \<Rightarrow> n) (gamedata_docs st)"
    using queryGameData_result by blast
  moreover from h have "(case q_limit q of None \<Rightarrow> 100 | Some n \<Rightarrow> if n = 0 then 100 else n) = 100"
    by auto
  ultimately show "length ds \<le> 100" by (simp add: db_find_length)
next
  assume h: "(cq_limit cq = None \<or> cq_limit cq = Some 0) \<and> queryCharacters env cq st = Inr cs"
  then have "cs = db_find (ch_matches (ch_selector_of cq))
        (case cq_limit cq of None \<Rightarrow> 100 | Some n \<Rightarrow> if n = 0 then 100 else n)
        (case cq_skip cq of None \<Rightarrow> 0 | Some n \<Rightarrow> n) (characters_docs st)"
    using queryCharacters_result by blast
  moreover from h have "(case cq_limit cq of None \<Rightarrow> 100 | Some n \<Rightarrow> if n = 0 then 100 else n) = 100"
    by auto
  ultimately show "length cs \<le> 100" by (simp add: db_find_length)
qed

lemma crowded_query:
  "queryGameData quiet everything crowded = Inr (take 100 (gamedata_docs crowded))"
  by (simp add: queryGameData_def getGameDataDB_def search_regexp_def pouch_find_def
      db_find_def quiet_def no_faults_def everything_def gd_matches_def gd_selector_of_def
      crowded_def ready_eq module_loaded_def)

lemma ready_characters:
  "queryCharacters quiet every_character ready = Inr []"
  by (simp add: queryCharacters_def getCharactersDB_def pouch_find_def db_find_def
      quiet_def no_faults_def ready_eq module_loaded_def)

theorem implicit_limit_witness:
  "q_limit everything = None
   \<and> length (gamedata_docs crowded) = 120
   \<and> queryGameData quiet everything crowded = Inr (take 100 (gamedata_docs crowded))
   \<and> length (take 100 (gamedata_docs crowded)) \<le> 100
   \<and> cq_limit every_character = Some 0
   \<and> queryCharacters quiet every_character ready = Inr []
   \<and> length ([] :: CharacterDoc list) \<le> 100"
proof -
  have a: "q_limit everything = None" by (simp add: everything_def)
  have b: "cq_limit every_character = Some 0" by (simp add: every_character_def)
  have n: "length (gamedata_docs crowded) = 120" by (simp add: crowded_def)
  from implicit_limit [where q = everything and env = quiet and st = crowded
      and ds = "take 100 (gamedata_docs crowded)"] a crowded_query
  have "length (take 100 (gamedata_docs crowded)) \<le> 100" by blast
  moreover from implicit_limit [where cq = every_character and env = quiet and st = ready
      and cs = "[]"] b ready_characters
  have "length ([] :: CharacterDoc list) \<le> 100" by blast
  ultimately show ?thesis using a b n crowded_query ready_characters by blast
qed

section \<open>Properties of the character operations\<close>

lemma trunc_ext: "CharacterInput.truncate (CharacterInput.extend c (CharacterDoc.fields i r ca ua v)) = c"
  by (cases c) (simp add: CharacterInput.truncate_def CharacterInput.extend_def CharacterDoc.fields_def)

lemma ext_fields: "ch_id (CharacterInput.extend c (CharacterDoc.fields i r ca ua v)) = i"
  "ch_rev (CharacterInput.extend c (CharacterDoc.fields i r ca ua v)) = r"
  "ch_createdAt (CharacterInput.extend c (CharacterDoc.fields i r ca ua v)) = ca"
  "ch_updatedAt (CharacterInput.extend c (CharacterDoc.fields i r ca ua v)) = ua"
  "ch_version (CharacterInput.extend c (CharacterDoc.fields i r ca ua v)) = v"
  by (cases c; simp add: CharacterInput.extend_def CharacterDoc.fields_def)+

lemma trunc_upd: "CharacterInput.truncate (d\<lparr>ch_rev := r\<rparr>) = CharacterInput.truncate d"
  "CharacterInput.truncate (d\<lparr>ch_updatedAt := u\<rparr>) = CharacterInput.truncate d"
  by (simp_all add: CharacterInput.truncate_def)

lemma find_upsert: "find (\<lambda>x. k x = k d) (store_upsert k d s) = Some d"
  by (induction s) auto

lemma db_get_upsert: "db_get k (store_upsert k d s) (k d) = Inr d"
  by (simp add: db_get_def find_upsert)

lemma db_put_ok:
  "db_put k rv set_rv docs d = Inr (r, docs') \<Longrightarrow>
     docs' = store_upsert k (set_rv (Some r) d) docs \<and>
     ((k d \<notin> k ` set docs \<and> rv d = None \<and> r = 1) \<or>
      (\<exists>x r0. find (\<lambda>x. k x = k d) docs = Some x \<and> rv x = Some r0 \<and> rv d = Some r0 \<and> r = Suc r0))"
  by (auto simp: db_put_def find_None_iff split: option.splits if_splits)

lemma db_remove_ok:
  "db_remove k rv docs d = Inr docs' \<Longrightarrow> docs' = filter (\<lambda>y. k y \<noteq> k d) docs"
  by (auto simp: db_remove_def split: option.splits if_splits)

lemma db_get_ok: "db_get k docs i = Inr d \<Longrightarrow> d \<in> set docs \<and> k d = i"
  by (auto simp: db_get_def split: option.splits dest: find_Some_iff[THEN iffD1])

lemma createCharacter_ok:
  assumes "createCharacter env now ms rnd c st = (Inr doc, st')"
  shows "\<exists>db. charactersDB st = Some db \<and> store_err env db OpPut = None \<and>
     doc = (CharacterInput.extend c (CharacterDoc.fields
              (''character_'' @ string_of_nat ms @ ''_'' @ take 9 (drop 2 rnd)) None now now 1))
             \<lparr>ch_rev := Some 1\<rparr> \<and>
     ch_id doc \<notin> ch_id ` set (characters_docs st) \<and>
     st' = st\<lparr>characters_docs := store_upsert ch_id doc (characters_docs st)\<rparr>"
proof -
  let ?n = "CharacterInput.extend c (CharacterDoc.fields
              (''character_'' @ string_of_nat ms @ ''_'' @ take 9 (drop 2 rnd)) None now now 1)"
  from assms obtain db where db: "charactersDB st = Some db"
    by (auto simp: createCharacter_def getCharactersDB_def split: option.splits)
  from assms db obtain r docs where
    put: "pouch_put env db ch_id ch_rev set_ch_rev (characters_docs st) ?n = Inr (r, docs)"
    and doc: "doc = ?n\<lparr>ch_rev := Some r\<rparr>" and st': "st' = st\<lparr>characters_docs := docs\<rparr>"
    by (auto simp: createCharacter_def getCharactersDB_def Let_def split: sum.splits)
  from put have nf: "store_err env db OpPut = None"
    and p: "db_put ch_id ch_rev set_ch_rev (characters_docs st) ?n = Inr (r, docs)"
    by (auto simp: pouch_put_def split: option.splits)
  from db_put_ok [OF p] have "docs = store_upsert ch_id (set_ch_rev (Some r) ?n) (characters_docs st)"
    and "ch_id ?n \<notin> ch_id ` set (characters_docs st) \<and> r = 1"
    by (auto simp: ext_fields)
  with db nf doc st' show ?thesis by (simp add: set_ch_rev_def)
qed


lemma updateCharacter_ok:
  assumes "updateCharacter env now d st = (Inr doc, st')"
  shows "\<exists>db r. charactersDB st = Some db \<and> store_err env db OpPut = None \<and>
     doc = d\<lparr>ch_updatedAt := now, ch_rev := Some r\<rparr> \<and>
     st' = st\<lparr>characters_docs := store_upsert ch_id doc (characters_docs st)\<rparr>"
proof -
  from assms obtain db where db: "charactersDB st = Some db"
    by (auto simp: updateCharacter_def getCharactersDB_def split: option.splits)
  from assms db obtain r docs where
    put: "pouch_put env db ch_id ch_rev set_ch_rev (characters_docs st) (d\<lparr>ch_updatedAt := now\<rparr>)
            = Inr (r, docs)"
    and doc: "doc = d\<lparr>ch_updatedAt := now, ch_rev := Some r\<rparr>"
    and st': "st' = st\<lparr>characters_docs := docs\<rparr>"
    by (auto simp: updateCharacter_def getCharactersDB_def Let_def split: sum.splits)
  from put have nf: "store_err env db OpPut = None"
    and p: "db_put ch_id ch_rev set_ch_rev (characters_docs st) (d\<lparr>ch_updatedAt := now\<rparr>)
            = Inr (r, docs)"
    by (auto simp: pouch_put_def split: option.splits)
  from db_put_ok [OF p]
  have "docs = store_upsert ch_id (set_ch_rev (Some r) (d\<lparr>ch_updatedAt := now\<rparr>)) (characters_docs st)"
    by simp
  with db nf doc st' show ?thesis by (auto simp: set_ch_rev_def)
qed

lemma deleteCharacter_ok:
  assumes "deleteCharacter env i st = (Inr (), st')"
  shows "\<exists>db. charactersDB st = Some db \<and> store_err env db OpGet = None \<and>
     st' = st\<lparr>characters_docs := filter (\<lambda>y. ch_id y \<noteq> i) (characters_docs st)\<rparr>"
proof -
  from assms obtain db where db: "charactersDB st = Some db"
    by (auto simp: deleteCharacter_def getCharactersDB_def split: option.splits)
  from assms db obtain doc docs where
    g: "pouch_get env db ch_id (characters_docs st) i = Inr doc"
    and r: "pouch_remove env db ch_id ch_rev (characters_docs st) doc = Inr docs"
    and st': "st' = st\<lparr>characters_docs := docs\<rparr>"
    by (auto simp: deleteCharacter_def getCharactersDB_def split: sum.splits)
  from g have nf: "store_err env db OpGet = None"
    and g': "db_get ch_id (characters_docs st) i = Inr doc"
    by (auto simp: pouch_get_def split: option.splits)
  from r have "db_remove ch_id ch_rev (characters_docs st) doc = Inr docs"
    by (auto simp: pouch_remove_def split: option.splits)
  from db_remove_ok [OF this] db_get_ok [OF g']
  have "docs = filter (\<lambda>y. ch_id y \<noteq> i) (characters_docs st)" by simp
  with db nf st' show ?thesis by simp
qed

lemma getCharacterById_stored:
  "charactersDB st = Some db \<Longrightarrow> store_err env db OpGet = None \<Longrightarrow>
   getCharacterById env (ch_id d) (st\<lparr>characters_docs := store_upsert ch_id d docs\<rparr>) = Inr (Some d)"
  by (simp add: getCharacterById_def getCharactersDB_def pouch_get_def db_get_upsert)

lemma getCharacterById_removed:
  "charactersDB st = Some db \<Longrightarrow> store_err env db OpGet = None \<Longrightarrow>
   getCharacterById env i (st\<lparr>characters_docs := filter (\<lambda>y. ch_id y \<noteq> i) docs\<rparr>) = Inr None"
proof -
  have "i \<notin> ch_id ` set (filter (\<lambda>y. ch_id y \<noteq> i) docs)" by auto
  then have "db_get ch_id (filter (\<lambda>y. ch_id y \<noteq> i) docs) i = Inl (PouchError 404 ''not_found'')"
    by (rule db_get_missing)
  then show "charactersDB st = Some db \<Longrightarrow> store_err env db OpGet = None \<Longrightarrow> ?thesis"
    by (simp add: getCharacterById_def getCharactersDB_def pouch_get_def)
qed

text \<open>
  C5, as the code has it. A successful \<open>createCharacter\<close> returns the input extended by
  the identifier \<open>character_<Date.now()>_<random suffix>\<close>, which no stored character
  had, by the clock reading as both \<open>createdAt\<close> and \<open>updatedAt\<close>, and by version 1;
  \<open>getCharacterById\<close> then returns that document. A successful \<open>updateCharacter\<close>
  returns the document it was given with \<open>updatedAt\<close> overwritten by the clock reading
  (and the new revision), which is later than the stored timestamp exactly when the clock
  reading is; \<open>getCharacterById\<close> then returns it. After a successful
  \<open>deleteCharacter\<close> no character has the identifier and \<open>getCharacterById\<close> returns
  null.
\<close>

theorem character_crud:
  "(createCharacter env now ms rnd c st = (Inr doc, st1) \<longrightarrow>
      CharacterInput.truncate doc = c
      \<and> ch_id doc = ''character_'' @ string_of_nat ms @ ''_'' @ take 9 (drop 2 rnd)
      \<and> ch_id doc \<notin> ch_id ` set (characters_docs st)
      \<and> ch_createdAt doc = now \<and> ch_updatedAt doc = now \<and> ch_version doc = 1
      \<and> (\<forall>db. charactersDB st = Some db \<and> store_err env db OpGet = None \<longrightarrow>
            getCharacterById env (ch_id doc) st1 = Inr (Some doc)))
   \<and> (updateCharacter env now d st = (Inr doc', st2) \<longrightarrow>
      ch_updatedAt doc' = now
      \<and> doc' = d\<lparr>ch_updatedAt := now, ch_rev := ch_rev doc'\<rparr>
      \<and> (\<forall>old. db_get ch_id (characters_docs st) (ch_id d) = Inr old \<longrightarrow>
            (ch_updatedAt old < ch_updatedAt doc') = (ch_updatedAt old < now))
      \<and> (\<forall>db. charactersDB st = Some db \<and> store_err env db OpGet = None \<longrightarrow>
            getCharacterById env (ch_id d) st2 = Inr (Some doc')))
   \<and> (deleteCharacter env i st = (Inr (), st3) \<longrightarrow>
      getCharacterById env i st3 = Inr None \<and> i \<notin> ch_id ` set (characters_docs st3))"
proof (intro conjI impI)
  assume a: "createCharacter env now ms rnd c st = (Inr doc, st1)"
  from createCharacter_ok [OF a] obtain db where
    doc: "doc = (CharacterInput.extend c (CharacterDoc.fields
              (''character_'' @ string_of_nat ms @ ''_'' @ take 9 (drop 2 rnd)) None now now 1))
             \<lparr>ch_rev := Some 1\<rparr>"
    and fresh: "ch_id doc \<notin> ch_id ` set (characters_docs st)"
    and st1: "st1 = st\<lparr>characters_docs := store_upsert ch_id doc (characters_docs st)\<rparr>"
    by blast
  show "CharacterInput.truncate doc = c" by (simp add: doc trunc_upd trunc_ext)
  show "ch_id doc = ''character_'' @ string_of_nat ms @ ''_'' @ take 9 (drop 2 rnd)"
    by (simp add: doc ext_fields)
  show "ch_id doc \<notin> ch_id ` set (characters_docs st)" by (rule fresh)
  show "ch_createdAt doc = now" by (simp add: doc ext_fields)
  show "ch_updatedAt doc = now" by (simp add: doc ext_fields)
  show "ch_version doc = 1" by (simp add: doc ext_fields)
  show "\<forall>db. charactersDB st = Some db \<and> store_err env db OpGet = None \<longrightarrow>
            getCharacterById env (ch_id doc) st1 = Inr (Some doc)"
    unfolding st1 by (auto intro: getCharacterById_stored)
next
  assume a: "updateCharacter env now d st = (Inr doc', st2)"
  from updateCharacter_ok [OF a] obtain r where
    doc: "doc' = d\<lparr>ch_updatedAt := now, ch_rev := Some r\<rparr>"
    and st2: "st2 = st\<lparr>characters_docs := store_upsert ch_id doc' (characters_docs st)\<rparr>"
    by blast
  show u: "ch_updatedAt doc' = now" by (simp add: doc)
  show "doc' = d\<lparr>ch_updatedAt := now, ch_rev := ch_rev doc'\<rparr>" by (simp add: doc)
  show "\<forall>old. db_get ch_id (characters_docs st) (ch_id d) = Inr old \<longrightarrow>
            (ch_updatedAt old < ch_updatedAt doc') = (ch_updatedAt old < now)"
    by (simp add: u)
  have "ch_id d = ch_id doc'" by (simp add: doc)
  then show "\<forall>db. charactersDB st = Some db \<and> store_err env db OpGet = None \<longrightarrow>
            getCharacterById env (ch_id d) st2 = Inr (Some doc')"
    unfolding st2 by (auto intro: getCharacterById_stored)
next
  assume a: "deleteCharacter env i st = (Inr (), st3)"
  from deleteCharacter_ok [OF a] obtain db where db: "charactersDB st = Some db"
    and nf: "store_err env db OpGet = None"
    and st3: "st3 = st\<lparr>characters_docs := filter (\<lambda>y. ch_id y \<noteq> i) (characters_docs st)\<rparr>"
    by blast
  show "getCharacterById env i st3 = Inr None"
    unfolding st3 by (rule getCharacterById_removed [OF db nf])
  show "i \<notin> ch_id ` set (characters_docs st3)" by (auto simp: st3)
qed

lemma ms_digits: "string_of_nat 1731319200000 = ''1731319200000''"
  by (subst string_of_nat.simps, simp)+

lemma first_save_eq:
  "first_save = (Inr saved_character, ready\<lparr>characters_docs := [saved_character]\<rparr>)"
  by (simp add: first_save_def createCharacter_def getCharactersDB_def pouch_put_def
      db_put_def set_ch_rev_def quiet_def no_faults_def ready_eq module_loaded_def
      ms_digits saved_character_def example_character_def
      CharacterInput.extend_def CharacterDoc.fields_def)

lemma second_save_eq:
  "updateCharacter quiet ''2024-11-11T10:00:00.000Z'' saved_character
       (ready\<lparr>characters_docs := [saved_character]\<rparr>) =
     (Inr (saved_character\<lparr>ch_rev := Some 2\<rparr>),
      ready\<lparr>characters_docs := [saved_character\<lparr>ch_rev := Some 2\<rparr>]\<rparr>)"
  by (simp add: updateCharacter_def getCharactersDB_def pouch_put_def
      db_put_def set_ch_rev_def quiet_def no_faults_def ready_eq module_loaded_def
      saved_character_def example_character_def
      CharacterInput.extend_def CharacterDoc.fields_def)

lemma delete_eq:
  "deleteCharacter quiet ''character_1731319200000_k3x9q2m7p'' (snd first_save) =
     (Inr (), ready\<lparr>characters_docs := []\<rparr>)"
  by (simp add: first_save_eq deleteCharacter_def getCharactersDB_def pouch_get_def
      pouch_remove_def db_get_def db_remove_def quiet_def no_faults_def ready_eq
      module_loaded_def saved_character_def CharacterInput.extend_def CharacterDoc.fields_def)

theorem character_crud_witness:
  "createCharacter quiet ''2024-11-11T10:00:00.000Z'' 1731319200000 ''0.k3x9q2m7pzta''
       example_character ready = (Inr saved_character, snd first_save)
   \<and> CharacterInput.truncate saved_character = example_character
   \<and> ch_id saved_character = ''character_1731319200000_k3x9q2m7p''
   \<and> getCharacterById quiet (ch_id saved_character) (snd first_save) = Inr (Some saved_character)
   \<and> updateCharacter quiet ''2024-11-12T08:30:00.000Z'' saved_character (snd first_save)
       = (Inr (saved_character\<lparr>ch_updatedAt := ''2024-11-12T08:30:00.000Z'', ch_rev := Some 2\<rparr>),
          ready\<lparr>characters_docs :=
            [saved_character\<lparr>ch_updatedAt := ''2024-11-12T08:30:00.000Z'', ch_rev := Some 2\<rparr>]\<rparr>)
   \<and> ch_updatedAt saved_character
       < ch_updatedAt (saved_character\<lparr>ch_updatedAt := ''2024-11-12T08:30:00.000Z'', ch_rev := Some 2\<rparr>)
   \<and> deleteCharacter quiet ''character_1731319200000_k3x9q2m7p'' (snd first_save)
       = (Inr (), ready\<lparr>characters_docs := []\<rparr>)
   \<and> getCharacterById quiet ''character_1731319200000_k3x9q2m7p'' (ready\<lparr>characters_docs := []\<rparr>)
       = Inr None"
proof -
  let ?now = "''2024-11-11T10:00:00.000Z''"
  let ?later = "''2024-11-12T08:30:00.000Z''"
  let ?i = "''character_1731319200000_k3x9q2m7p''"
  let ?upd = "saved_character\<lparr>ch_updatedAt := ?later, ch_rev := Some 2\<rparr>"
  have c: "createCharacter quiet ?now 1731319200000 ''0.k3x9q2m7pzta'' example_character ready
      = (Inr saved_character, snd first_save)"
    using first_save_eq by (simp add: first_save_def)
  have h: "charactersDB ready = Some ''anvil2e_characters'' \<and>
      store_err quiet ''anvil2e_characters'' OpGet = None"
    by (simp add: ready_eq module_loaded_def quiet_def no_faults_def)
  have h1: "charactersDB (snd first_save) = Some ''anvil2e_characters'' \<and>
      store_err quiet ''anvil2e_characters'' OpGet = None"
    by (simp add: first_save_eq ready_eq module_loaded_def quiet_def no_faults_def)
  have u: "updateCharacter quiet ?later saved_character (snd first_save)
      = (Inr ?upd, ready\<lparr>characters_docs := [?upd]\<rparr>)"
    by (simp add: first_save_eq updateCharacter_def getCharactersDB_def pouch_put_def
      db_put_def set_ch_rev_def quiet_def no_faults_def ready_eq module_loaded_def
      saved_character_def example_character_def
      CharacterInput.extend_def CharacterDoc.fields_def)
  have old: "db_get ch_id (characters_docs (snd first_save)) (ch_id saved_character)
      = Inr saved_character"
    by (simp add: first_save_eq db_get_def)
  have lt: "ch_updatedAt saved_character < ?later"
    by (simp add: saved_character_def CharacterInput.extend_def CharacterDoc.fields_def)
  note t1 = character_crud [where env = quiet and now = ?now and ms = 1731319200000
      and rnd = "''0.k3x9q2m7pzta''" and c = example_character and st = ready
      and doc = saved_character and ?st1.0 = "snd first_save"]
  note t2 = character_crud [where env = quiet and now = ?later and d = saved_character
      and st = "snd first_save" and doc' = ?upd
      and ?st2.0 = "ready\<lparr>characters_docs := [?upd]\<rparr>"
      and i = ?i and ?st3.0 = "ready\<lparr>characters_docs := []\<rparr>"]
  from t1 c h have a1: "CharacterInput.truncate saved_character = example_character"
    and a2: "ch_id saved_character = ''character_'' @ string_of_nat 1731319200000 @ ''_'' @
        take 9 (drop 2 ''0.k3x9q2m7pzta'')"
    and a3: "getCharacterById quiet (ch_id saved_character) (snd first_save)
        = Inr (Some saved_character)"
    by blast+
  from t2 u old have b1: "(ch_updatedAt saved_character < ch_updatedAt ?upd)
      = (ch_updatedAt saved_character < ?later)"
    by blast
  from t2 delete_eq have d1: "getCharacterById quiet ?i (ready\<lparr>characters_docs := []\<rparr>) = Inr None"
    by blast
  from a2 have a2': "ch_id saved_character = ?i" by (simp add: ms_digits)
  from b1 lt have b2: "ch_updatedAt saved_character < ch_updatedAt ?upd" by simp
  from c a1 a2' a3 u b2 delete_eq d1 show ?thesis by blast
qed

text \<open>
  C5, as the specification states it, fails: an update in the same clock reading as the save before
  it stores the same \<open>updatedAt\<close>, not a strictly later one.
\<close>

theorem update_same_instant:
  "fst first_save = Inr saved_character
   \<and> db_get ch_id (characters_docs (snd first_save)) (ch_id saved_character) = Inr saved_character
   \<and> fst (updateCharacter quiet ''2024-11-11T10:00:00.000Z'' saved_character (snd first_save))
       = Inr (saved_character\<lparr>ch_rev := Some 2\<rparr>)
   \<and> \<not> ch_updatedAt saved_character < ch_updatedAt (saved_character\<lparr>ch_rev := Some 2\<rparr>)"
  by (simp add: first_save_eq second_save_eq db_get_def)

section \<open>Properties of the preferences\<close>

lemma first_getPreferences:
  "getPreferences quiet ready =
     (Inr defaultPrefs, ready\<lparr>preferences_docs := [defaultPrefs\<lparr>pf_rev := Some 1\<rparr>]\<rparr>)"
  by (simp add: getPreferences_def getPreferencesDB_def pouch_get_def pouch_put_def db_get_def
      db_put_def set_pf_rev_def quiet_def no_faults_def ready_eq module_loaded_def
      defaultPrefs_def)

lemma second_getPreferences:
  "getPreferences quiet (ready\<lparr>preferences_docs := [defaultPrefs\<lparr>pf_rev := Some 1\<rparr>]\<rparr>) =
     (Inr (defaultPrefs\<lparr>pf_rev := Some 1\<rparr>),
      ready\<lparr>preferences_docs := [defaultPrefs\<lparr>pf_rev := Some 1\<rparr>]\<rparr>)"
  by (simp add: getPreferences_def getPreferencesDB_def pouch_get_def db_get_def
      quiet_def no_faults_def ready_eq module_loaded_def defaultPrefs_def)

text \<open>
  C6, as the specification states it, fails on one point. On a store without a
  preferences document the first \<open>getPreferences\<close> returns the default document and
  stores it, and the second call returns the stored document and writes nothing; there is
  one document, \<open>user_preferences\<close>. But the two calls do not return the identical
  document: the first returns \<open>defaultPrefs\<close> as built,
  without the revision the store assigned, the second returns it with \<open>_rev\<close>. (The
  other writers, \<open>createCharacter\<close>, \<open>updateCharacter\<close> and \<open>updatePreferences\<close>,
  return \<open>_rev: result.rev\<close>.) So \<open>updatePreferences\<close> on such a store, which puts
  what \<open>getPreferences\<close> returned, is rejected with a conflict.
\<close>

theorem getPreferences_twice:
  "fst (getPreferences quiet ready) = Inr defaultPrefs
   \<and> preferences_docs (snd (getPreferences quiet ready)) = [defaultPrefs\<lparr>pf_rev := Some 1\<rparr>]
   \<and> getPreferences quiet (snd (getPreferences quiet ready)) =
       (Inr (defaultPrefs\<lparr>pf_rev := Some 1\<rparr>), snd (getPreferences quiet ready))
   \<and> defaultPrefs \<noteq> defaultPrefs\<lparr>pf_rev := Some 1\<rparr>
   \<and> fst (updatePreferences quiet [SetTheme Light] ready) = Inl (PouchError 409 ''conflict'')"
proof -
  have d: "defaultPrefs \<noteq> defaultPrefs\<lparr>pf_rev := Some 1\<rparr>"
  proof
    assume "defaultPrefs = defaultPrefs\<lparr>pf_rev := Some 1\<rparr>"
    then have "pf_rev defaultPrefs = pf_rev (defaultPrefs\<lparr>pf_rev := Some 1\<rparr>)" by simp
    then show False by (simp add: defaultPrefs_def)
  qed
  have p: "pouch_put quiet ''anvil2e_preferences'' pf_id pf_rev set_pf_rev
      [defaultPrefs\<lparr>pf_rev := Some 1\<rparr>] (defaultPrefs\<lparr>pf_theme := Light\<rparr>)
      = Inl (PouchError 409 ''conflict'')"
    by (simp add: pouch_put_def db_put_def quiet_def no_faults_def defaultPrefs_def)
  have h: "getPreferencesDB ready = Inr ''anvil2e_preferences''"
    by (simp add: getPreferencesDB_def ready_eq module_loaded_def)
  have u: "fst (updatePreferences quiet [SetTheme Light] ready) = Inl (PouchError 409 ''conflict'')"
    unfolding updatePreferences_def h first_getPreferences by (simp add: Let_def p [simplified])
  from d u show ?thesis
    by (simp add: first_getPreferences [simplified] second_getPreferences [simplified])
qed

section \<open>Properties of replication and reset\<close>

lemma createIndex_all_sync:
  "charactersSyncHandler (snd (createIndex_all env xs st)) = charactersSyncHandler st \<and>
   live_syncs (snd (createIndex_all env xs st)) = live_syncs st \<and>
   filter sync_effect (effects (snd (createIndex_all env xs st))) = filter sync_effect (effects st)"
  by (induction xs arbitrary: st) (auto simp: log_effect_def split: option.splits)

lemma close_all_sync:
  "charactersSyncHandler (snd (close_all env hs st)) = charactersSyncHandler st \<and>
   live_syncs (snd (close_all env hs st)) = live_syncs st \<and>
   filter sync_effect (effects (snd (close_all env hs st))) = filter sync_effect (effects st)"
  by (induction env hs st rule: close_all.induct) (auto simp: log_effect_def split: option.splits)

lemma destroy_all_sync:
  "charactersSyncHandler (snd (destroy_all env ns st)) = charactersSyncHandler st \<and>
   live_syncs (snd (destroy_all env ns st)) = live_syncs st \<and>
   filter sync_effect (effects (snd (destroy_all env ns st))) = filter sync_effect (effects st)"
  by (induction ns arbitrary: st) (auto simp: log_effect_def erase_db_def split: option.splits)

lemma initDatabases_sync:
  "charactersSyncHandler (snd (initDatabases env st)) = charactersSyncHandler st \<and>
   live_syncs (snd (initDatabases env st)) = live_syncs st \<and>
   filter sync_effect (effects (snd (initDatabases env st))) = filter sync_effect (effects st)"
  by (simp add: initDatabases_def createIndexes_def createIndex_all_sync log_effect_def
      del: createIndex_all.simps)

lemma closeDatabases_sync:
  "charactersSyncHandler (snd (closeDatabases env st)) = charactersSyncHandler st \<and>
   live_syncs (snd (closeDatabases env st)) = live_syncs st \<and>
   filter sync_effect (effects (snd (closeDatabases env st))) = filter sync_effect (effects st)"
proof (cases "close_all env [gamedataDB st, charactersDB st, preferencesDB st] st")
  case (Pair r st1)
  with close_all_sync [of env "[gamedataDB st, charactersDB st, preferencesDB st]" st]
  show ?thesis by (cases r) (simp_all add: closeDatabases_def)
qed

lemma destroyDatabases_sync:
  "charactersSyncHandler (snd (destroyDatabases env st)) = charactersSyncHandler st \<and>
   live_syncs (snd (destroyDatabases env st)) = live_syncs st \<and>
   filter sync_effect (effects (snd (destroyDatabases env st))) = filter sync_effect (effects st)"
proof (cases "closeDatabases env st")
  case (Pair r st1)
  with closeDatabases_sync [of env st]
  have s1: "charactersSyncHandler st1 = charactersSyncHandler st \<and> live_syncs st1 = live_syncs st \<and>
     filter sync_effect (effects st1) = filter sync_effect (effects st)" by simp
  show ?thesis
  proof (cases r)
    case (Inl e)
    with Pair s1 show ?thesis by (simp add: destroyDatabases_def)
  next
    case (Inr u)
    with Pair s1 destroy_all_sync [of env
        "[''anvil2e_gamedata'', ''anvil2e_characters'', ''anvil2e_preferences'']" st1]
    show ?thesis by (simp add: destroyDatabases_def del: destroy_all.simps)
  qed
qed

lemma sync_inv_same:
  "charactersSyncHandler st' = charactersSyncHandler st \<and> live_syncs st' = live_syncs st \<and>
     filter sync_effect (effects st') = filter sync_effect (effects st) \<Longrightarrow>
   sync_inv st' = sync_inv st \<and> sync_exact st' = sync_exact st"
  by (simp add: sync_inv_def sync_exact_def split: option.splits)

lemma startCharactersSync_inv: "sync_inv st \<Longrightarrow> sync_inv (snd (startCharactersSync env url st))"
  by (auto simp: sync_inv_def startCharactersSync_def cancel_def log_effect_def Let_def
      split: option.splits)

lemma stopCharactersSync_inv: "sync_inv st \<Longrightarrow> sync_inv (stopCharactersSync st)"
  by (auto simp: sync_inv_def stopCharactersSync_def cancel_def log_effect_def
      split: option.splits)

lemma run_op_inv: "sync_inv st \<Longrightarrow> sync_inv (run_op env op st)"
proof (cases op)
  case InitDatabases
  assume "sync_inv st"
  with sync_inv_same [OF initDatabases_sync [of env st]] InitDatabases show ?thesis by simp
next
  case CloseDatabases
  assume "sync_inv st"
  with sync_inv_same [OF closeDatabases_sync [of env st]] CloseDatabases show ?thesis by simp
next
  case DestroyDatabases
  assume "sync_inv st"
  with sync_inv_same [OF destroyDatabases_sync [of env st]] DestroyDatabases show ?thesis by simp
next
  case (StartCharactersSync url)
  assume "sync_inv st"
  with StartCharactersSync show ?thesis by (simp add: startCharactersSync_inv)
next
  case StopCharactersSync
  assume "sync_inv st"
  with StopCharactersSync show ?thesis by (simp add: stopCharactersSync_inv)
qed

lemma run_ops_inv: "sync_inv st \<Longrightarrow> sync_inv (run_ops env ops st)"
  unfolding run_ops_def by (induction ops arbitrary: st) (auto simp: run_op_inv)

lemma startCharactersSync_exact:
  "\<forall>url. sync_err env url = None \<Longrightarrow> sync_exact st \<Longrightarrow>
     sync_exact (snd (startCharactersSync env url st))"
  by (auto simp: sync_exact_def startCharactersSync_def cancel_def log_effect_def Let_def
      split: option.splits)

lemma stopCharactersSync_exact: "sync_exact st \<Longrightarrow> sync_exact (stopCharactersSync st)"
  by (auto simp: sync_exact_def stopCharactersSync_def cancel_def log_effect_def
      split: option.splits)

lemma run_op_exact:
  assumes "\<forall>url. sync_err env url = None" and "sync_exact st"
  shows "sync_exact (run_op env op st)"
proof (cases op)
  case InitDatabases
  with sync_inv_same [OF initDatabases_sync [of env st]] assms(2) show ?thesis by simp
next
  case CloseDatabases
  with sync_inv_same [OF closeDatabases_sync [of env st]] assms(2) show ?thesis by simp
next
  case DestroyDatabases
  with sync_inv_same [OF destroyDatabases_sync [of env st]] assms(2) show ?thesis by simp
next
  case (StartCharactersSync url)
  with assms show ?thesis by (simp add: startCharactersSync_exact)
next
  case StopCharactersSync
  with assms(2) show ?thesis by (simp add: stopCharactersSync_exact)
qed

lemma run_ops_exact:
  "\<forall>url. sync_err env url = None \<Longrightarrow> sync_exact st \<Longrightarrow> sync_exact (run_ops env ops st)"
  unfolding run_ops_def by (induction ops arbitrary: st) (auto simp: run_op_exact)

lemma sync_inv_length: "sync_inv st \<Longrightarrow> length (live_syncs st) \<le> 1"
  by (auto simp: sync_inv_def split: option.splits)

lemma restart_sync:
  assumes inv: "sync_inv st"
    and a: "startCharactersSync env a st = (Inr hA, stA)"
    and b: "startCharactersSync env b stA = (Inr hB, stB)"
  shows "live_syncs stB = [hB] \<and> sh_remote hB = b \<and> charactersSyncHandler stB = Some hB \<and>
     hA \<noteq> hB \<and> effects stB = effects stA @ [SyncCancelled hA, SyncStarted hB] \<and>
     last (effects stA) = SyncStarted hA"
proof -
  from a have hA: "hA = \<lparr>sh_id = syncs_made st, sh_remote = a\<rparr>"
    and stA: "charactersSyncHandler stA = Some hA \<and> charactersDB stA \<noteq> None \<and>
        syncs_made stA = Suc (syncs_made st) \<and> last (effects stA) = SyncStarted hA"
    by (auto simp: startCharactersSync_def cancel_def log_effect_def Let_def
        split: option.splits)
  from inv a have "sync_inv stA"
    using startCharactersSync_inv [of st env a] by simp
  with stA have live: "live_syncs stA = [] \<or> live_syncs stA = [hA]"
    by (simp add: sync_inv_def)
  from b stA live have "live_syncs stB = [hB] \<and> sh_remote hB = b \<and>
      charactersSyncHandler stB = Some hB \<and> sh_id hB = Suc (syncs_made st) \<and>
      effects stB = effects stA @ [SyncCancelled hA, SyncStarted hB]"
    by (auto simp: startCharactersSync_def cancel_def log_effect_def Let_def
        split: option.splits)
  moreover from this hA have "hA \<noteq> hB" by auto
  ultimately show ?thesis using stA by simp
qed

text \<open>
  C3. In every state the module reaches from module load, whatever fails on the way, at
  most one replication is live. From such a state, \<open>startCharactersSync\<close> with endpoint
  \<open>a\<close> and then with endpoint \<open>b\<close>, both returning a handler, leave exactly the second
  handler live, against \<open>b\<close>, in the module variable; the calls made are: start the first,
  cancel the first, start the second, in that order. \<open>stopCharactersSync\<close> without a
  handler changes nothing. \<open>isSyncActive\<close> tells whether the module variable holds a
  handler, which, as long as no start of a replication throws, is whether a replication
  is live.
\<close>

theorem single_sync_handler:
  "length (live_syncs (run_ops env ops module_loaded)) \<le> 1
   \<and> (startCharactersSync env a (run_ops env ops module_loaded) = (Inr hA, stA) \<and>
      startCharactersSync env b stA = (Inr hB, stB) \<longrightarrow>
        live_syncs stB = [hB] \<and> sh_remote hB = b \<and> charactersSyncHandler stB = Some hB \<and>
        hA \<noteq> hB \<and> effects stB = effects stA @ [SyncCancelled hA, SyncStarted hB] \<and>
        last (effects stA) = SyncStarted hA)
   \<and> (charactersSyncHandler st = None \<longrightarrow> stopCharactersSync st = st)
   \<and> isSyncActive st = (charactersSyncHandler st \<noteq> None)
   \<and> ((\<forall>url. sync_err env url = None) \<longrightarrow>
        isSyncActive (run_ops env ops module_loaded)
          = (live_syncs (run_ops env ops module_loaded) \<noteq> []))"
proof (intro conjI impI)
  have i0: "sync_inv module_loaded" by (simp add: sync_inv_def module_loaded_def)
  then have inv: "sync_inv (run_ops env ops module_loaded)" by (rule run_ops_inv)
  then show "length (live_syncs (run_ops env ops module_loaded)) \<le> 1"
    by (rule sync_inv_length)
  {
    assume "startCharactersSync env a (run_ops env ops module_loaded) = (Inr hA, stA) \<and>
      startCharactersSync env b stA = (Inr hB, stB)"
    then have r: "live_syncs stB = [hB] \<and> sh_remote hB = b \<and> charactersSyncHandler stB = Some hB \<and>
        hA \<noteq> hB \<and> effects stB = effects stA @ [SyncCancelled hA, SyncStarted hB] \<and>
        last (effects stA) = SyncStarted hA"
      using restart_sync [OF inv] by blast
    from r show "live_syncs stB = [hB]" by simp
    from r show "sh_remote hB = b" by simp
    from r show "charactersSyncHandler stB = Some hB" by simp
    from r show "hA \<noteq> hB" by simp
    from r show "effects stB = effects stA @ [SyncCancelled hA, SyncStarted hB]" by simp
    from r show "last (effects stA) = SyncStarted hA" by simp
  }
  show "charactersSyncHandler st = None \<Longrightarrow> stopCharactersSync st = st"
    by (simp add: stopCharactersSync_def)
  show "isSyncActive st = (charactersSyncHandler st \<noteq> None)"
    by (simp add: isSyncActive_def)
  assume nf: "\<forall>url. sync_err env url = None"
  have "sync_exact module_loaded" by (simp add: sync_exact_def module_loaded_def)
  with nf have "sync_exact (run_ops env ops module_loaded)" by (rule run_ops_exact)
  then show "isSyncActive (run_ops env ops module_loaded)
          = (live_syncs (run_ops env ops module_loaded) \<noteq> [])"
    by (auto simp: sync_exact_def isSyncActive_def split: option.splits)
qed

lemma run_init: "run_ops quiet [InitDatabases] module_loaded = ready"
  by (simp add: run_ops_def ready_def)

lemma start_a:
  "startCharactersSync quiet remote_a ready =
     (Inr \<lparr>sh_id = 0, sh_remote = remote_a\<rparr>,
      ready\<lparr>charactersSyncHandler := Some \<lparr>sh_id = 0, sh_remote = remote_a\<rparr>,
            live_syncs := [\<lparr>sh_id = 0, sh_remote = remote_a\<rparr>],
            syncs_made := Suc 0,
            effects := effects ready @ [SyncStarted \<lparr>sh_id = 0, sh_remote = remote_a\<rparr>]\<rparr>)"
  by (simp add: startCharactersSync_def log_effect_def quiet_def no_faults_def ready_eq
      module_loaded_def Let_def)

lemma syncing_eq:
  "syncing =
     ready\<lparr>charactersSyncHandler := Some \<lparr>sh_id = 0, sh_remote = remote_a\<rparr>,
           live_syncs := [\<lparr>sh_id = 0, sh_remote = remote_a\<rparr>],
           syncs_made := Suc 0,
           effects := effects ready @ [SyncStarted \<lparr>sh_id = 0, sh_remote = remote_a\<rparr>]\<rparr>"
  by (simp add: syncing_def start_a)

lemma start_b:
  "fst (startCharactersSync quiet remote_b syncing) = Inr \<lparr>sh_id = 1, sh_remote = remote_b\<rparr>"
  by (simp add: syncing_eq startCharactersSync_def cancel_def log_effect_def quiet_def
      no_faults_def ready_eq module_loaded_def Let_def)

theorem single_sync_handler_witness:
  "startCharactersSync quiet remote_a (run_ops quiet [InitDatabases] module_loaded)
     = (Inr \<lparr>sh_id = 0, sh_remote = remote_a\<rparr>, syncing)
   \<and> fst (startCharactersSync quiet remote_b syncing) = Inr \<lparr>sh_id = 1, sh_remote = remote_b\<rparr>
   \<and> live_syncs (snd (startCharactersSync quiet remote_b syncing))
       = [\<lparr>sh_id = 1, sh_remote = remote_b\<rparr>]
   \<and> charactersSyncHandler (snd (startCharactersSync quiet remote_b syncing))
       = Some \<lparr>sh_id = 1, sh_remote = remote_b\<rparr>
   \<and> effects (snd (startCharactersSync quiet remote_b syncing))
       = effects syncing @ [SyncCancelled \<lparr>sh_id = 0, sh_remote = remote_a\<rparr>,
                            SyncStarted \<lparr>sh_id = 1, sh_remote = remote_b\<rparr>]
   \<and> charactersSyncHandler ready = None
   \<and> stopCharactersSync ready = ready
   \<and> isSyncActive (run_ops quiet [InitDatabases, StartCharactersSync remote_a] module_loaded)
   \<and> live_syncs (run_ops quiet [InitDatabases, StartCharactersSync remote_a] module_loaded) \<noteq> []"
proof -
  let ?hA = "\<lparr>sh_id = 0, sh_remote = remote_a\<rparr>"
  let ?hB = "\<lparr>sh_id = 1, sh_remote = remote_b\<rparr>"
  let ?stB = "snd (startCharactersSync quiet remote_b syncing)"
  have a: "startCharactersSync quiet remote_a (run_ops quiet [InitDatabases] module_loaded)
      = (Inr ?hA, syncing)"
    unfolding run_init syncing_eq by (rule start_a)
  have b: "startCharactersSync quiet remote_b syncing = (Inr ?hB, ?stB)"
    using start_b by (simp add: prod_eq_iff)
  have n: "charactersSyncHandler ready = None" by (simp add: ready_eq module_loaded_def)
  have q: "\<forall>url. sync_err quiet url = None" by (simp add: quiet_def no_faults_def)
  have act: "isSyncActive (run_ops quiet [InitDatabases, StartCharactersSync remote_a] module_loaded)"
    by (simp add: run_ops_def ready_def [symmetric] syncing_def [symmetric] syncing_eq
        isSyncActive_def)
  note t = single_sync_handler [where env = quiet and ops = "[InitDatabases]" and a = remote_a
      and b = remote_b and hA = ?hA and stA = syncing and hB = ?hB and stB = ?stB and st = ready]
  note u = single_sync_handler [where env = quiet
      and ops = "[InitDatabases, StartCharactersSync remote_a]"]
  from t a b have "live_syncs ?stB = [?hB] \<and> charactersSyncHandler ?stB = Some ?hB \<and>
      effects ?stB = effects syncing @ [SyncCancelled ?hA, SyncStarted ?hB]"
    by blast
  moreover from t n have "stopCharactersSync ready = ready" by blast
  moreover from u q act
  have "live_syncs (run_ops quiet [InitDatabases, StartCharactersSync remote_a] module_loaded) \<noteq> []"
    by blast
  ultimately show ?thesis using a start_b n act by blast
qed

lemma destroy_all_erases:
  "destroy_all env [''anvil2e_gamedata'', ''anvil2e_characters'', ''anvil2e_preferences''] st
     = (Inr u, st') \<Longrightarrow>
   gamedata_docs st' = [] \<and> characters_docs st' = [] \<and> preferences_docs st' = [] \<and>
   gamedataDB st' = gamedataDB st \<and> charactersDB st' = charactersDB st \<and>
   preferencesDB st' = preferencesDB st"
  by (auto simp: erase_db_def log_effect_def split: option.splits)

lemma createIndex_all_docs:
  "gamedata_docs (snd (createIndex_all env xs st)) = gamedata_docs st \<and>
   characters_docs (snd (createIndex_all env xs st)) = characters_docs st \<and>
   preferences_docs (snd (createIndex_all env xs st)) = preferences_docs st"
  by (induction xs arbitrary: st) (auto simp: log_effect_def split: option.splits)

lemma initDatabases_docs:
  "gamedata_docs (snd (initDatabases env st)) = gamedata_docs st \<and>
   characters_docs (snd (initDatabases env st)) = characters_docs st \<and>
   preferences_docs (snd (initDatabases env st)) = preferences_docs st"
  by (simp add: initDatabases_def createIndexes_def createIndex_all_docs log_effect_def
      del: createIndex_all.simps)

lemma destroyDatabases_ok:
  assumes "fst (destroyDatabases env st) = Inr ()"
  shows "gamedata_docs (snd (destroyDatabases env st)) = [] \<and>
     characters_docs (snd (destroyDatabases env st)) = [] \<and>
     preferences_docs (snd (destroyDatabases env st)) = [] \<and>
     gamedataDB (snd (destroyDatabases env st)) = None \<and>
     charactersDB (snd (destroyDatabases env st)) = None \<and>
     preferencesDB (snd (destroyDatabases env st)) = None"
proof (cases "closeDatabases env st")
  case (Pair r st1)
  show ?thesis
  proof (cases r)
    case (Inl e)
    with Pair assms show ?thesis by (simp add: destroyDatabases_def)
  next
    case (Inr u)
    with Pair closeDatabases_handles [of env st]
    have h: "gamedataDB st1 = None \<and> charactersDB st1 = None \<and> preferencesDB st1 = None"
      by simp
    from Pair Inr have d: "destroyDatabases env st =
        destroy_all env [''anvil2e_gamedata'', ''anvil2e_characters'', ''anvil2e_preferences''] st1"
      by (simp add: destroyDatabases_def)
    with assms have "destroy_all env
        [''anvil2e_gamedata'', ''anvil2e_characters'', ''anvil2e_preferences''] st1
        = (Inr (), snd (destroyDatabases env st))"
      by (simp add: prod_eq_iff)
    from destroy_all_erases [OF this] h show ?thesis by simp
  qed
qed

lemma close_all_effects:
  "close_all env hs st = (Inr u, st') \<Longrightarrow> effects st' = effects st @ map Closed (open_handles hs)"
  by (induction env hs st rule: close_all.induct) (auto simp: log_effect_def split: option.splits)

lemma destroy_all_effects:
  "destroy_all env ns st = (Inr u, st') \<Longrightarrow> effects st' = effects st @ map Destroyed ns"
  by (induction ns arbitrary: st) (auto simp: log_effect_def erase_db_def split: option.splits)

lemma destroyDatabases_calls:
  assumes "fst (destroyDatabases env st) = Inr ()"
  shows "effects (snd (destroyDatabases env st)) =
     effects st @ map Closed (open_handles [gamedataDB st, charactersDB st, preferencesDB st]) @
       [Destroyed ''anvil2e_gamedata'', Destroyed ''anvil2e_characters'',
        Destroyed ''anvil2e_preferences'']"
proof (cases "close_all env [gamedataDB st, charactersDB st, preferencesDB st] st")
  case (Pair r st0)
  show ?thesis
  proof (cases r)
    case (Inl e)
    with Pair assms show ?thesis by (simp add: destroyDatabases_def closeDatabases_def)
  next
    case (Inr u)
    with Pair have c: "effects st0 = effects st @
        map Closed (open_handles [gamedataDB st, charactersDB st, preferencesDB st])"
      using close_all_effects by blast
    let ?st1 = "st0\<lparr>gamedataDB := None, charactersDB := None, preferencesDB := None\<rparr>"
    from Pair Inr have d: "destroyDatabases env st =
        destroy_all env [''anvil2e_gamedata'', ''anvil2e_characters'', ''anvil2e_preferences'']
          ?st1"
      by (simp add: destroyDatabases_def closeDatabases_def)
    with assms have "destroy_all env
        [''anvil2e_gamedata'', ''anvil2e_characters'', ''anvil2e_preferences''] ?st1
        = (Inr (), snd (destroyDatabases env st))"
      by (simp add: prod_eq_iff)
    from destroy_all_effects [OF this] c show ?thesis by simp
  qed
qed

text \<open>
  C4, as the code has it. \<open>destroyDatabases\<close> never touches the replication: the module
  variable, the live replications and the start and cancel calls made are after it what
  they were before. When it succeeds, it has closed the handles that were set and destroyed
  the three databases, in that order and with no other call; the three collections are
  empty and the three handles are unset, so every accessor throws; the collections are not
  recreated until \<open>initDatabases\<close> is called again, which opens them empty.
\<close>

theorem destroyDatabases_effect:
  "charactersSyncHandler (snd (destroyDatabases env st)) = charactersSyncHandler st
   \<and> live_syncs (snd (destroyDatabases env st)) = live_syncs st
   \<and> filter sync_effect (effects (snd (destroyDatabases env st)))
       = filter sync_effect (effects st)
   \<and> (fst (destroyDatabases env st) = Inr () \<longrightarrow>
        gamedata_docs (snd (destroyDatabases env st)) = []
        \<and> characters_docs (snd (destroyDatabases env st)) = []
        \<and> preferences_docs (snd (destroyDatabases env st)) = []
        \<and> \<not> isDatabasesInitialized (snd (destroyDatabases env st))
        \<and> getGameDataDB (snd (destroyDatabases env st)) = Inl (uninitialized ''Gamedata'')
        \<and> getCharactersDB (snd (destroyDatabases env st)) = Inl (uninitialized ''Characters'')
        \<and> getPreferencesDB (snd (destroyDatabases env st)) = Inl (uninitialized ''Preferences'')
        \<and> isDatabasesInitialized (snd (initDatabases env' (snd (destroyDatabases env st))))
        \<and> gamedata_docs (snd (initDatabases env' (snd (destroyDatabases env st)))) = []
        \<and> characters_docs (snd (initDatabases env' (snd (destroyDatabases env st)))) = []
        \<and> preferences_docs (snd (initDatabases env' (snd (destroyDatabases env st)))) = []
        \<and> effects (snd (destroyDatabases env st)) =
            effects st @
            map Closed (open_handles [gamedataDB st, charactersDB st, preferencesDB st]) @
            [Destroyed ''anvil2e_gamedata'', Destroyed ''anvil2e_characters'',
             Destroyed ''anvil2e_preferences''])"
proof (intro conjI impI)
  show "charactersSyncHandler (snd (destroyDatabases env st)) = charactersSyncHandler st"
    and "live_syncs (snd (destroyDatabases env st)) = live_syncs st"
    and "filter sync_effect (effects (snd (destroyDatabases env st)))
       = filter sync_effect (effects st)"
    using destroyDatabases_sync [of env st] by simp_all
next
  assume ok: "fst (destroyDatabases env st) = Inr ()"
  note d = destroyDatabases_ok [OF ok]
  note i = initDatabases_docs [of env' "snd (destroyDatabases env st)"]
  from d show "gamedata_docs (snd (destroyDatabases env st)) = []"
    and "characters_docs (snd (destroyDatabases env st)) = []"
    and "preferences_docs (snd (destroyDatabases env st)) = []"
    by simp_all
  from d show "\<not> isDatabasesInitialized (snd (destroyDatabases env st))"
    by (simp add: isDatabasesInitialized_def)
  from d show "getGameDataDB (snd (destroyDatabases env st)) = Inl (uninitialized ''Gamedata'')"
    and "getCharactersDB (snd (destroyDatabases env st)) = Inl (uninitialized ''Characters'')"
    and "getPreferencesDB (snd (destroyDatabases env st)) = Inl (uninitialized ''Preferences'')"
    by (simp_all add: getGameDataDB_def getCharactersDB_def getPreferencesDB_def
        uninitialized_def)
  show "isDatabasesInitialized (snd (initDatabases env' (snd (destroyDatabases env st))))"
    by (simp add: isDatabasesInitialized_def initDatabases_handles)
  from d i show "gamedata_docs (snd (initDatabases env' (snd (destroyDatabases env st)))) = []"
    and "characters_docs (snd (initDatabases env' (snd (destroyDatabases env st)))) = []"
    and "preferences_docs (snd (initDatabases env' (snd (destroyDatabases env st)))) = []"
    by simp_all
  show "effects (snd (destroyDatabases env st)) =
      effects st @
      map Closed (open_handles [gamedataDB st, charactersDB st, preferencesDB st]) @
      [Destroyed ''anvil2e_gamedata'', Destroyed ''anvil2e_characters'',
       Destroyed ''anvil2e_preferences'']"
    by (rule destroyDatabases_calls [OF ok])
qed

theorem destroyDatabases_effect_witness:
  "fst (destroyDatabases quiet stocked) = Inr ()
   \<and> gamedata_docs stocked \<noteq> []
   \<and> gamedata_docs (snd (destroyDatabases quiet stocked)) = []
   \<and> \<not> isDatabasesInitialized (snd (destroyDatabases quiet stocked))
   \<and> isDatabasesInitialized (snd (initDatabases quiet (snd (destroyDatabases quiet stocked))))
   \<and> gamedata_docs (snd (initDatabases quiet (snd (destroyDatabases quiet stocked)))) = []"
proof -
  have s: "gamedataDB stocked = Some ''anvil2e_gamedata'' \<and>
      charactersDB stocked = Some ''anvil2e_characters'' \<and>
      preferencesDB stocked = Some ''anvil2e_preferences''"
    by (simp add: stocked_def ready_eq module_loaded_def)
  have ok: "fst (destroyDatabases quiet stocked) = Inr ()"
    by (simp add: destroyDatabases_def closeDatabases_def s quiet_def no_faults_def
        log_effect_def erase_db_def)
  have ne: "gamedata_docs stocked \<noteq> []" by (simp add: stocked_docs)
  from destroyDatabases_effect [of quiet stocked quiet] ok ne show ?thesis by blast
qed

lemma destroy_syncing:
  "destroyDatabases quiet syncing =
     (Inr (),
      syncing\<lparr>gamedataDB := None, charactersDB := None, preferencesDB := None,
        effects := effects syncing @
          [Closed ''anvil2e_gamedata'', Closed ''anvil2e_characters'',
           Closed ''anvil2e_preferences'', Destroyed ''anvil2e_gamedata'',
           Destroyed ''anvil2e_characters'', Destroyed ''anvil2e_preferences'']\<rparr>)"
  by (simp add: destroyDatabases_def closeDatabases_def syncing_eq ready_eq module_loaded_def
      quiet_def no_faults_def log_effect_def erase_db_def)

text \<open>
  C4, as the specification states it, fails: with a replication running, \<open>destroyDatabases\<close>
  succeeds and the handler is still in the module variable and still live; no cancel was
  called; and the collections are not reopened.
\<close>

theorem reset_keeps_sync_running:
  "isSyncActive syncing
   \<and> live_syncs syncing = [\<lparr>sh_id = 0, sh_remote = remote_a\<rparr>]
   \<and> fst (destroyDatabases quiet syncing) = Inr ()
   \<and> charactersSyncHandler (snd (destroyDatabases quiet syncing))
       = Some \<lparr>sh_id = 0, sh_remote = remote_a\<rparr>
   \<and> live_syncs (snd (destroyDatabases quiet syncing)) = [\<lparr>sh_id = 0, sh_remote = remote_a\<rparr>]
   \<and> SyncCancelled \<lparr>sh_id = 0, sh_remote = remote_a\<rparr>
       \<notin> set (effects (snd (destroyDatabases quiet syncing)))
   \<and> \<not> isDatabasesInitialized (snd (destroyDatabases quiet syncing))"
  unfolding destroy_syncing
  by (simp add: syncing_eq ready_eq module_loaded_def isSyncActive_def
      isDatabasesInitialized_def)


end
